theory Spec2Isabelle
  imports Complex_Main "HOL-Library.Sublist"
begin

section \<open>DRIFT: the channel-to-forum migration engine (lib/migrator.js)\<close>

text \<open>
  A shallow embedding of \<^verbatim>\<open>lib/migrator.js\<close>. Calls to the platform (discord.js, \<^verbatim>\<open>fetch\<close>)
  are answered by a \<open>world\<close>, a record of scripted responses; every call that the engine
  makes is appended to an event trace, so that statements about what was called, how often
  and in which order are statements about that trace. A rejected promise is an error
  value: discord.js and \<^verbatim>\<open>fetch\<close> reject with Error objects, modelled by \<open>js_error\<close>.
\<close>

subsection \<open>Strings\<close>

text \<open>
  A JavaScript string is a sequence of UTF-16 code units; \<^verbatim>\<open>length\<close>, \<^verbatim>\<open>substring\<close> and
  \<^verbatim>\<open>trim\<close> work on code units. The literals of the source that are not ASCII are written
  out as code units.
\<close>

type_synonym jsstring = "nat list"

definition ascii :: "string \<Rightarrow> jsstring" where
  "ascii s = map of_char s"

text \<open>Decimal rendering of an integral number, as a template literal does it for
  magnitudes below \<open>10^21\<close>.\<close>

fun show_nat :: "nat \<Rightarrow> jsstring" where
  "show_nat n = (if n < 10 then [48 + n] else show_nat (n div 10) @ [48 + n mod 10])"

declare show_nat.simps [simp del]

definition show_int :: "int \<Rightarrow> jsstring" where
  "show_int i = (if i < 0 then ascii ''-'' @ show_nat (nat (- i)) else show_nat (nat i))"

text \<open>\<^verbatim>\<open>Array.prototype.join\<close>.\<close>

fun join :: "jsstring \<Rightarrow> jsstring list \<Rightarrow> jsstring" where
  "join sep [] = []"
| "join sep [x] = x"
| "join sep (x # y # ys) = x @ sep @ join sep (y # ys)"

text \<open>\<^verbatim>\<open>String.prototype.trim\<close>: strips WhiteSpace and LineTerminator code units at both ends.\<close>

definition is_js_space :: "nat \<Rightarrow> bool" where
  "is_js_space c = (c = 9 \<or> c = 10 \<or> c = 11 \<or> c = 12 \<or> c = 13 \<or> c = 32 \<or> c = 160
     \<or> c = 0x1680 \<or> (0x2000 \<le> c \<and> c \<le> 0x200A) \<or> c = 0x2028 \<or> c = 0x2029
     \<or> c = 0x202F \<or> c = 0x205F \<or> c = 0x3000 \<or> c = 0xFEFF)"

definition trim :: "jsstring \<Rightarrow> jsstring" where
  "trim s = rev (dropWhile is_js_space (rev (dropWhile is_js_space s)))"

text \<open>Truthiness of an optional string: \<^verbatim>\<open>null\<close>, \<^verbatim>\<open>undefined\<close> and \<^verbatim>\<open>''\<close> are falsy.\<close>

definition truthy :: "jsstring option \<Rightarrow> bool" where
  "truthy s = (case s of None \<Rightarrow> False | Some t \<Rightarrow> t \<noteq> [])"

subsection \<open>Data model\<close>

record attachment =
  att_name :: jsstring
  att_size :: nat
  att_url :: jsstring
  att_description :: "jsstring option"

text \<open>An embed: \<^verbatim>\<open>e.data?.type\<close> and the value of \<^verbatim>\<open>e.toJSON()\<close>.\<close>

record embed =
  embed_type :: "jsstring option"
  embed_json :: jsstring

record sticker =
  sticker_name :: jsstring

text \<open>
  A source message. \<open>msg_reference\<close> is \<^verbatim>\<open>message.reference?.messageId\<close>;
  \<open>msg_content\<close> is the empty string when the message has no text.
\<close>

record message =
  msg_id :: jsstring
  msg_content :: jsstring
  msg_system :: bool
  msg_attachments :: "attachment list"
  msg_embeds :: "embed list"
  msg_stickers :: "sticker list"
  msg_reference :: "jsstring option"
  msg_createdTimestamp :: int

text \<open>
  A thrown Error object, with the properties the engine reads: \<^verbatim>\<open>status\<close>, \<^verbatim>\<open>code\<close>
  (numbers, or absent), \<^verbatim>\<open>retryAfter\<close> and \<^verbatim>\<open>message\<close>.
\<close>

record js_error =
  err_status :: "int option"
  err_code :: "int option"
  err_retryAfter :: "rat option"
  err_message :: jsstring

definition new_Error :: "jsstring \<Rightarrow> js_error" where
  "new_Error msg = \<lparr>err_status = None, err_code = None, err_retryAfter = None, err_message = msg\<rparr>"

text \<open>An outgoing file (\<^verbatim>\<open>AttachmentBuilder\<close>) and the payload handed to \<^verbatim>\<open>webhook.send\<close>.
  \<open>p_files\<close> and \<open>p_embeds\<close> are empty where the source leaves the property unset. The
  payload's \<^verbatim>\<open>username\<close> and \<^verbatim>\<open>avatarURL\<close> are carried through opaquely by the source and
  are not part of the embedding.\<close>

record outfile =
  file_data :: "nat list"
  file_name :: jsstring
  file_description :: "jsstring option"

record payload =
  p_threadId :: jsstring
  p_content :: jsstring
  p_files :: "outfile list"
  p_embeds :: "jsstring list"

record fetch_opts =
  fo_limit :: nat
  fo_before :: "jsstring option"

record create_req =
  cr_name :: jsstring
  cr_appliedTags :: "jsstring list"

record thread =
  thread_id :: jsstring
  thread_url :: jsstring

text \<open>The response of \<^verbatim>\<open>fetch(url)\<close>: a rejection, or a response with \<^verbatim>\<open>ok\<close>, \<^verbatim>\<open>status\<close> and
  the outcome of \<^verbatim>\<open>arrayBuffer()\<close>.\<close>

datatype http_result =
  Net_error js_error
| Http_resp bool nat "js_error + nat list"

text \<open>The calls the engine makes, in the order it makes them. The flag of an event says
  whether the call succeeded; sleeps carry their duration in milliseconds.\<close>

datatype event =
  EvProgress
| EvFetch fetch_opts
| EvFetchPinned
| EvSleep rat
| EvCreateThread create_req bool
| EvCreateWebhook bool
| EvDownload jsstring
| EvSend payload bool
| EvDeleteWebhook bool
| EvNotifySource bool
| EvArchiveSource bool

text \<open>
  The platform. Paging and downloads answer by their argument (the channel and the files
  do not change during a run); \<^verbatim>\<open>webhook.send\<close> answers by the payload and by everything
  that happened before, so that a retry may fare differently from the first attempt.
  \<open>w_rate_limit_delay\<close> is \<^verbatim>\<open>RATE_LIMIT_DELAY\<close>, read from the environment.
\<close>

record world =
  w_fetch_page :: "fetch_opts \<Rightarrow> js_error + message list"
  w_fetch_pinned :: "js_error + message list"
  w_threads_create :: "create_req \<Rightarrow> js_error + thread"
  w_create_webhook :: "js_error option"
  w_webhook_send :: "event list \<Rightarrow> payload \<Rightarrow> js_error option"
  w_webhook_delete :: "js_error option"
  w_http_fetch :: "jsstring \<Rightarrow> http_result"
  w_source_send :: "js_error option"
  w_source_edit :: "js_error option"
  w_rate_limit_delay :: rat

definition PROGRESS_INTERVAL :: nat where
  "PROGRESS_INTERVAL = 15"

definition MAX_FILE_SIZE :: nat where
  "MAX_FILE_SIZE = 25 * 1024 * 1024"

definition MAX_CONTENT_LEN :: nat where
  "MAX_CONTENT_LEN = 2000"

subsection \<open>formatSize\<close>

text \<open>
  \<^verbatim>\<open>(bytes / 2^k).toFixed(1)\<close>: the division by a power of two is exact for byte counts
  below \<open>2^53\<close>, and \<^verbatim>\<open>toFixed(1)\<close> picks the integer \<open>n\<close> nearest to ten times the value
  (the larger one on a tie) and prints \<open>n div 10\<close>, a point and \<open>n mod 10\<close>.
\<close>

definition toFixed1 :: "nat \<Rightarrow> nat \<Rightarrow> jsstring" where
  "toFixed1 bytes unit =
     (let n = (20 * bytes + unit) div (2 * unit)
      in show_nat (n div 10) @ ascii ''.'' @ show_nat (n mod 10))"

definition formatSize :: "nat \<Rightarrow> jsstring" where
  "formatSize bytes =
     (if bytes \<ge> 1024 * 1024 * 1024 then toFixed1 bytes (1024 ^ 3) @ ascii '' GB''
      else if bytes \<ge> 1024 * 1024 then toFixed1 bytes (1024 ^ 2) @ ascii '' MB''
      else if bytes \<ge> 1024 then toFixed1 bytes 1024 @ ascii '' KB''
      else show_nat bytes @ ascii '' B'')"

subsection \<open>sendMigratedMessage: the message transformer\<close>

definition timestampSuffix :: "message \<Rightarrow> jsstring" where
  "timestampSuffix m =
     [10] @ ascii ''-# <t:'' @ show_int (msg_createdTimestamp m div 1000) @ ascii '':f>''"

definition replyNote :: jsstring where
  "replyNote = [0x21A9, 0xFE0F] @ ascii '' *replying to an earlier message*'' @ [10]"

definition stickerNote :: "message \<Rightarrow> jsstring" where
  "stickerNote m =
     [10] @ ascii ''-# '' @ [0xD83C, 0xDFF7, 0xFE0F] @ ascii '' Sticker: ''
       @ join (ascii '', '') (map sticker_name (msg_stickers m))"

definition ellipsis :: jsstring where
  "ellipsis = [0x2026]"

text \<open>
  Lines 344 to 366: the content with reply note, sticker note and timestamp suffix.
  \<^verbatim>\<open>substring(0, k)\<close> with a negative \<open>k\<close> is the empty string, which is what \<open>take\<close>
  gives with the truncating subtraction of \<open>nat\<close>.
\<close>

definition build_content :: "message \<Rightarrow> jsstring" where
  "build_content m =
     (let content0 = msg_content m;
          content1 = (if truthy (msg_reference m) then replyNote @ content0 else content0);
          content2 = (if length (msg_stickers m) > 0 then content1 @ stickerNote m else content1);
          content3 = (if length content2 + length (timestampSuffix m) > MAX_CONTENT_LEN
                      then take (MAX_CONTENT_LEN - length (timestampSuffix m) - 4) content2 @ ellipsis
                      else content2)
      in content3 @ timestampSuffix m)"

text \<open>Lines 370 to 374: nothing meaningful to send.\<close>

definition nothing_to_send :: "message \<Rightarrow> bool" where
  "nothing_to_send m =
     (trim (build_content m) = trim (timestampSuffix m)
      \<and> length (msg_attachments m) = 0
      \<and> length (msg_embeds m) = 0)"

definition warnSign :: jsstring where
  "warnSign = [10] @ ascii ''-# '' @ [0x26A0, 0xFE0F]"

definition warn_large :: "attachment \<Rightarrow> jsstring" where
  "warn_large a =
     warnSign @ ascii '' Skipped large file: **'' @ att_name a @ ascii ''** (''
       @ formatSize (att_size a) @ ascii '')''"

definition warn_download :: "attachment \<Rightarrow> jsstring \<Rightarrow> jsstring" where
  "warn_download a reason =
     warnSign @ ascii '' Could not download: **'' @ att_name a @ ascii ''** '' @ [0x2014]
       @ ascii '' '' @ reason"

definition warn_omitted :: "nat \<Rightarrow> jsstring" where
  "warn_omitted n =
     warnSign @ ascii '' '' @ show_nat n
       @ ascii '' additional file(s) could not be included (10-file limit per message)''"

definition mk_file :: "nat list \<Rightarrow> attachment \<Rightarrow> outfile" where
  "mk_file buf a =
     \<lparr>file_data = buf,
      file_name = (if att_name a \<noteq> [] then att_name a else ascii ''attachment''),
      file_description = (if truthy (att_description a) then att_description a else None)\<rparr>"

text \<open>
  The body of the inner \<^verbatim>\<open>try\<close> of the attachment loop, lines 396 to 402: the file, or
  the message of the error that the \<^verbatim>\<open>catch\<close> of line 403 receives.
\<close>

definition download :: "world \<Rightarrow> attachment \<Rightarrow> jsstring + outfile" where
  "download w a =
     (case w_http_fetch w (att_url a) of
        Net_error err \<Rightarrow> Inl (err_message err)
      | Http_resp ok status body \<Rightarrow>
          if \<not> ok then Inl (err_message (new_Error (ascii ''HTTP '' @ show_nat status)))
          else (case body of
                  Inl err \<Rightarrow> Inl (err_message err)
                | Inr buf \<Rightarrow> Inr (mk_file buf a)))"

text \<open>The loop of lines 389 to 406 over the attachments; the state is the trace, the
  payload's content and the files collected so far.\<close>

fun attach_each ::
  "world \<Rightarrow> attachment list \<Rightarrow> event list \<times> jsstring \<times> outfile list
     \<Rightarrow> event list \<times> jsstring \<times> outfile list" where
  "attach_each w [] st = st"
| "attach_each w (a # as) (tr, content, files) =
     (if att_size a > MAX_FILE_SIZE
      then attach_each w as (tr, content @ warn_large a, files)
      else (case download w a of
              Inr f \<Rightarrow> attach_each w as (tr @ [EvDownload (att_url a)], content, files @ [f])
            | Inl reason \<Rightarrow>
                attach_each w as
                  (tr @ [EvDownload (att_url a)], content @ warn_download a reason, files)))"

text \<open>Lines 386 to 416: the attachment block, with the cap of ten files.\<close>

definition attach_files ::
  "world \<Rightarrow> message \<Rightarrow> event list \<times> jsstring \<Rightarrow> event list \<times> jsstring \<times> outfile list" where
  "attach_files w m st =
     (case st of (tr, content) \<Rightarrow>
        if length (msg_attachments m) > 0
        then (case attach_each w (msg_attachments m) (tr, content, []) of
                (tr', content', files) \<Rightarrow>
                  if length files > 10
                  then (tr', content' @ warn_omitted (length files - 10), take 10 files)
                  else (tr', content', files))
        else (tr, content, []))"

definition richEmbeds :: "message \<Rightarrow> jsstring list" where
  "richEmbeds m = map embed_json (filter (\<lambda>e. embed_type e = Some (ascii ''rich'')) (msg_embeds m))"

text \<open>
  \<^verbatim>\<open>sendMigratedMessage\<close>. The result is \<open>None\<close> when the function returns and \<open>Some err\<close>
  when it throws; it returns without a value both after a send and when there is nothing
  to send, and only the trace tells the two apart.
\<close>

definition sendMigratedMessage ::
  "world \<Rightarrow> event list \<Rightarrow> jsstring \<Rightarrow> message \<Rightarrow> event list \<times> js_error option" where
  "sendMigratedMessage w tr threadId m =
     (if nothing_to_send m then (tr, None)
      else (case attach_files w m (tr, build_content m) of
              (tr', content, files) \<Rightarrow>
                (let pl = \<lparr>p_threadId = threadId, p_content = content,
                           p_files = files, p_embeds = richEmbeds m\<rparr>
                 in case w_webhook_send w tr' pl of
                      None \<Rightarrow> (tr' @ [EvSend pl True], None)
                    | Some err \<Rightarrow> (tr' @ [EvSend pl False], Some err))))"

subsection \<open>fetchAllMessages: the history fetcher\<close>

text \<open>Lines 316 and 317: the options of one page request; an empty \<open>lastId\<close> is falsy.\<close>

definition page_opts :: "jsstring option \<Rightarrow> fetch_opts" where
  "page_opts lastId =
     \<lparr>fo_limit = 100, fo_before = (if truthy lastId then lastId else None)\<rparr>"

text \<open>
  The \<^verbatim>\<open>while (true)\<close> loop of lines 315 to 333, with its variables \<open>all\<close>, \<open>lastId\<close>
  and \<open>batches\<close>. The result is \<open>None\<close> when the loop never ends; a failing page request
  leaves the function as a thrown error.
\<close>

partial_function (option) fetchLoop ::
  "world \<Rightarrow> message list \<Rightarrow> jsstring option \<Rightarrow> nat \<Rightarrow> event list
     \<Rightarrow> (event list \<times> (js_error + message list)) option" where
  "fetchLoop w all lastId batches tr =
     (case w_fetch_page w (page_opts lastId) of
        Inl err \<Rightarrow> Some (tr @ [EvFetch (page_opts lastId)], Inl err)
      | Inr batch \<Rightarrow>
          if length batch = 0 then Some (tr @ [EvFetch (page_opts lastId)], Inr (rev all))
          else fetchLoop w (all @ batch) (Some (msg_id (last batch))) (batches + 1)
                 ((if (batches + 1) mod 5 = 0
                   then tr @ [EvFetch (page_opts lastId), EvProgress]
                   else tr @ [EvFetch (page_opts lastId)]) @ [EvSleep 350]))"

definition fetchAllMessages ::
  "world \<Rightarrow> event list \<Rightarrow> (event list \<times> (js_error + message list)) option" where
  "fetchAllMessages w tr = fetchLoop w [] None 0 tr"

subsection \<open>migrateChannel: the orchestrator\<close>

datatype channel_type = GuildText | GuildForum | OtherChannel nat

datatype perm =
  ViewChannel | ReadMessageHistory | SendMessages | ManageWebhooks | CreatePublicThreads

record forum_tag =
  tag_id :: jsstring
  tag_name :: jsstring

text \<open>The permission lists are \<^verbatim>\<open>permissionsFor(guild.members.me)\<close>.\<close>

record source_channel =
  src_type :: channel_type
  src_name :: jsstring
  src_perms :: "perm list"

text \<open>\<open>frm_requireTag\<close> is the forum's \<^verbatim>\<open>RequireTag\<close> channel flag: whether a post must
  carry a tag. \<^verbatim>\<open>migrateChannel\<close> never reads it.\<close>

record forum_channel =
  frm_type :: channel_type
  frm_perms :: "perm list"
  frm_availableTags :: "forum_tag list"
  frm_requireTag :: bool

record options =
  o_sourceChannel :: source_channel
  o_forumChannel :: forum_channel
  o_postName :: "jsstring option"
  o_tagName :: "jsstring option"
  o_pinsOnly :: bool
  o_archiveSource :: bool

text \<open>The errors that \<^verbatim>\<open>migrateChannel\<close> throws, one constructor for each \<^verbatim>\<open>throw\<close>, with
  the variable parts of its message; \<open>Fetch_failed\<close> is an error of the fetcher passing
  through.\<close>

datatype fatal =
  Source_not_text channel_type
| Target_not_forum channel_type
| Missing_permissions "jsstring list"
| Fetch_failed js_error
| No_messages
| Tag_not_found jsstring jsstring
| Forum_access_denied
| Create_post_failed jsstring
| Create_webhook_failed jsstring

record migration_result =
  r_threadUrl :: jsstring
  r_threadId :: jsstring
  r_postTitle :: jsstring
  r_messageCount :: nat
  r_attachmentCount :: nat
  r_skippedCount :: nat
  r_errorCount :: nat

text \<open>Lines 37 to 57: channel kinds and the aggregated permission check.\<close>

definition missing_permissions :: "options \<Rightarrow> jsstring list" where
  "missing_permissions opts =
     (let srcPerms = set (src_perms (o_sourceChannel opts));
          frmPerms = set (frm_perms (o_forumChannel opts))
      in (if ViewChannel \<notin> srcPerms then [ascii ''View Channel (source)''] else [])
       @ (if ReadMessageHistory \<notin> srcPerms then [ascii ''Read Message History (source)''] else [])
       @ (if SendMessages \<notin> frmPerms then [ascii ''Send Messages (forum)''] else [])
       @ (if ManageWebhooks \<notin> frmPerms then [ascii ''Manage Webhooks (forum)''] else [])
       @ (if CreatePublicThreads \<notin> frmPerms then [ascii ''Create Posts (forum)''] else []))"

definition validate :: "options \<Rightarrow> fatal option" where
  "validate opts =
     (if src_type (o_sourceChannel opts) \<noteq> GuildText
      then Some (Source_not_text (src_type (o_sourceChannel opts)))
      else if frm_type (o_forumChannel opts) \<noteq> GuildForum
      then Some (Target_not_forum (frm_type (o_forumChannel opts)))
      else if length (missing_permissions opts) > 0
      then Some (Missing_permissions (missing_permissions opts))
      else None)"

text \<open>Lines 62 to 68: the pinned subset, reversed, or the whole history.\<close>

definition fetch_messages ::
  "world \<Rightarrow> bool \<Rightarrow> event list \<Rightarrow> (event list \<times> (js_error + message list)) option" where
  "fetch_messages w pinsOnly tr =
     (if pinsOnly
      then Some (tr @ [EvFetchPinned],
                 case w_fetch_pinned w of Inl err \<Rightarrow> Inl err | Inr pins \<Rightarrow> Inr (rev pins))
      else fetchAllMessages w tr)"

text \<open>
  Lines 78 to 98: tag resolution. \<^verbatim>\<open>String.prototype.toLowerCase\<close> is a parameter,
  \<open>toLowerCase\<close>. The second component of \<open>Tag_not_found\<close> is the text after
  \<^verbatim>\<open>Available tags:\<close>.
\<close>

definition available_names :: "forum_channel \<Rightarrow> jsstring" where
  "available_names forum =
     (let joined = join (ascii '', '') (map tag_name (frm_availableTags forum))
      in if joined \<noteq> [] then joined else ascii ''(none)'')"

definition explicit_tag ::
  "(jsstring \<Rightarrow> jsstring) \<Rightarrow> forum_channel \<Rightarrow> jsstring option \<Rightarrow> fatal + jsstring list" where
  "explicit_tag toLowerCase forum tagName =
     (case tagName of
        None \<Rightarrow> Inr []
      | Some name \<Rightarrow>
          if name = [] then Inr []
          else (case find (\<lambda>t. toLowerCase (tag_name t) = toLowerCase name)
                       (frm_availableTags forum) of
                  Some tag \<Rightarrow> Inr [tag_id tag]
                | None \<Rightarrow> Inl (Tag_not_found name (available_names forum))))"

definition fallback_tag ::
  "(jsstring \<Rightarrow> jsstring) \<Rightarrow> forum_channel \<Rightarrow> jsstring list \<Rightarrow> jsstring list" where
  "fallback_tag toLowerCase forum appliedTags =
     (if length (frm_availableTags forum) > 0 \<and> length appliedTags = 0
      then (case find (\<lambda>t. toLowerCase (tag_name t) = ascii ''migrated'')
                   (frm_availableTags forum) of
              Some migrated \<Rightarrow> appliedTags @ [tag_id migrated]
            | None \<Rightarrow> appliedTags)
      else appliedTags)"

definition resolve_tags ::
  "(jsstring \<Rightarrow> jsstring) \<Rightarrow> forum_channel \<Rightarrow> jsstring option \<Rightarrow> fatal + jsstring list" where
  "resolve_tags toLowerCase forum tagName =
     (case explicit_tag toLowerCase forum tagName of
        Inl e \<Rightarrow> Inl e
      | Inr appliedTags \<Rightarrow> Inr (fallback_tag toLowerCase forum appliedTags))"

text \<open>
  Lines 101 to 104: the post title. After \<^verbatim>\<open>-\<close> and \<^verbatim>\<open>_\<close> became spaces, \<^verbatim>\<open>\b\w\<close>
  matches a letter or digit that follows no word character, and \<^verbatim>\<open>toUpperCase\<close> of such
  a character changes the letters a to z only.
\<close>

definition is_word_char :: "nat \<Rightarrow> bool" where
  "is_word_char c = ((48 \<le> c \<and> c \<le> 57) \<or> (65 \<le> c \<and> c \<le> 90) \<or> c = 95 \<or> (97 \<le> c \<and> c \<le> 122))"

fun capitalize_words :: "bool \<Rightarrow> jsstring \<Rightarrow> jsstring" where
  "capitalize_words inWord [] = []"
| "capitalize_words inWord (c # cs) =
     (if is_word_char c \<and> \<not> inWord \<and> 97 \<le> c \<and> c \<le> 122 then c - 32 else c)
       # capitalize_words (is_word_char c) cs"

definition post_title :: "options \<Rightarrow> jsstring" where
  "post_title opts =
     (if truthy (o_postName opts) then (case o_postName opts of Some t \<Rightarrow> t | None \<Rightarrow> [])
      else capitalize_words False
             (map (\<lambda>c. if c = 45 \<or> c = 95 then 32 else c) (src_name (o_sourceChannel opts))))"

text \<open>Lines 122 to 134: the forum post. The header message has no influence on the
  control flow and is left out of the request.\<close>

definition create_post ::
  "world \<Rightarrow> event list \<Rightarrow> create_req \<Rightarrow> event list \<times> (fatal + thread)" where
  "create_post w tr req =
     (case w_threads_create w req of
        Inr thr \<Rightarrow> (tr @ [EvCreateThread req True], Inr thr)
      | Inl err \<Rightarrow>
          (tr @ [EvCreateThread req False],
           if err_code err = Some 50001 then Inl Forum_access_denied
           else Inl (Create_post_failed (err_message err))))"

text \<open>Lines 172 to 193: one message through the webhook, with the single retry after a
  rate limit.\<close>

definition retry_delay :: "js_error \<Rightarrow> rat" where
  "retry_delay err =
     (case err_retryAfter err of None \<Rightarrow> 5 | Some r \<Rightarrow> if r = 0 then 5 else r) * 1000"

definition is_rate_limit :: "js_error \<Rightarrow> bool" where
  "is_rate_limit err = (err_status err = Some 429 \<or> err_code err = Some 429)"

record counters =
  c_messageCount :: nat
  c_attachmentCount :: nat
  c_skippedCount :: nat
  c_errorCount :: nat

definition send_with_retry ::
  "world \<Rightarrow> jsstring \<Rightarrow> message \<Rightarrow> event list \<times> counters \<Rightarrow> event list \<times> counters" where
  "send_with_retry w threadId m st =
     (case st of (tr, c) \<Rightarrow>
       (case sendMigratedMessage w tr threadId m of
          (tr1, None) \<Rightarrow>
            (tr1, c\<lparr>c_attachmentCount := c_attachmentCount c + length (msg_attachments m)\<rparr>)
        | (tr1, Some err) \<Rightarrow>
            if is_rate_limit err
            then (case sendMigratedMessage w (tr1 @ [EvSleep (retry_delay err + 500)]) threadId m of
                    (tr2, None) \<Rightarrow>
                      (tr2, c\<lparr>c_attachmentCount :=
                                 c_attachmentCount c + length (msg_attachments m)\<rparr>)
                  | (tr2, Some retryErr) \<Rightarrow> (tr2, c\<lparr>c_errorCount := c_errorCount c + 1\<rparr>))
            else (tr1, c\<lparr>c_errorCount := c_errorCount c + 1\<rparr>)))"

text \<open>Lines 155 to 206: the body of the replay loop.\<close>

definition is_empty_message :: "message \<Rightarrow> bool" where
  "is_empty_message m =
     (msg_content m = [] \<and> length (msg_attachments m) = 0
      \<and> length (msg_embeds m) = 0 \<and> length (msg_stickers m) = 0)"

definition replay_message ::
  "world \<Rightarrow> jsstring \<Rightarrow> message \<Rightarrow> event list \<times> counters \<Rightarrow> event list \<times> counters" where
  "replay_message w threadId m st =
     (case st of (tr, c) \<Rightarrow>
        if msg_system m
        then (tr, c\<lparr>c_skippedCount := c_skippedCount c + 1, c_messageCount := c_messageCount c + 1\<rparr>)
        else if is_empty_message m
        then (tr, c\<lparr>c_skippedCount := c_skippedCount c + 1, c_messageCount := c_messageCount c + 1\<rparr>)
        else (case send_with_retry w threadId m (tr, c) of
                (tr1, c1) \<Rightarrow>
                  ((if (c_messageCount c1 + 1) mod PROGRESS_INTERVAL = 0
                    then tr1 @ [EvProgress] else tr1) @ [EvSleep (w_rate_limit_delay w)],
                   c1\<lparr>c_messageCount := c_messageCount c1 + 1\<rparr>)))"

fun replay ::
  "world \<Rightarrow> jsstring \<Rightarrow> message list \<Rightarrow> event list \<times> counters \<Rightarrow> event list \<times> counters" where
  "replay w threadId [] st = st"
| "replay w threadId (m # ms) st = replay w threadId ms (replay_message w threadId m st)"

text \<open>
  Lines 147 to 253, entered once the webhook exists: the replay, the deletion of the
  webhook in the \<^verbatim>\<open>finally\<close> block, the notice in the source channel, the optional
  archiving, and the summary. Every failing call of the loop body sits inside the
  \<^verbatim>\<open>try\<close> of line 172, and the \<^verbatim>\<open>catch\<close> blocks around the three calls that follow swallow
  what they catch.
\<close>

definition zero_counters :: counters where
  "zero_counters = \<lparr>c_messageCount = 0, c_attachmentCount = 0, c_skippedCount = 0, c_errorCount = 0\<rparr>"

definition run_with_webhook ::
  "world \<Rightarrow> options \<Rightarrow> thread \<Rightarrow> jsstring \<Rightarrow> message list \<Rightarrow> event list
     \<Rightarrow> event list \<times> migration_result" where
  "run_with_webhook w opts thr title messages tr =
     (case replay w (thread_id thr) messages (tr, zero_counters) of
        (tr1, c) \<Rightarrow>
          (let tr2 = tr1 @ [EvDeleteWebhook (w_webhook_delete w = None)];
               tr3 = tr2 @ [EvNotifySource (w_source_send w = None)];
               tr4 = (if o_archiveSource opts
                      then tr3 @ [EvArchiveSource (w_source_edit w = None)] else tr3)
           in (tr4,
               \<lparr>r_threadUrl = thread_url thr, r_threadId = thread_id thr, r_postTitle = title,
                r_messageCount = c_messageCount c, r_attachmentCount = c_attachmentCount c,
                r_skippedCount = c_skippedCount c, r_errorCount = c_errorCount c\<rparr>)))"

text \<open>Lines 70 to 145: from the fetched messages to the webhook.\<close>

definition migrate_fetched ::
  "(jsstring \<Rightarrow> jsstring) \<Rightarrow> world \<Rightarrow> options \<Rightarrow> message list \<Rightarrow> event list
     \<Rightarrow> event list \<times> (fatal + migration_result)" where
  "migrate_fetched toLowerCase w opts messages tr =
     (if length messages = 0 then (tr, Inl No_messages)
      else (case resolve_tags toLowerCase (o_forumChannel opts) (o_tagName opts) of
              Inl e \<Rightarrow> (tr @ [EvProgress], Inl e)
            | Inr appliedTags \<Rightarrow>
                (case create_post w (tr @ [EvProgress])
                        \<lparr>cr_name = take 100 (post_title opts), cr_appliedTags = appliedTags\<rparr> of
                   (tr1, Inl e) \<Rightarrow> (tr1, Inl e)
                 | (tr1, Inr thr) \<Rightarrow>
                     (case w_create_webhook w of
                        Some err \<Rightarrow>
                          (tr1 @ [EvCreateWebhook False],
                           Inl (Create_webhook_failed (err_message err)))
                      | None \<Rightarrow>
                          (case run_with_webhook w opts thr (post_title opts) messages
                                  (tr1 @ [EvCreateWebhook True]) of
                             (tr2, res) \<Rightarrow> (tr2, Inr res))))))"

text \<open>\<^verbatim>\<open>migrateChannel\<close>. The result is \<open>None\<close> when the run never ends, the trace with
  \<open>Inl\<close> of the error when it throws, and the trace with \<open>Inr\<close> of the summary when it
  returns.\<close>

definition migrateChannel ::
  "(jsstring \<Rightarrow> jsstring) \<Rightarrow> world \<Rightarrow> options
     \<Rightarrow> (event list \<times> (fatal + migration_result)) option" where
  "migrateChannel toLowerCase w opts =
     (case validate opts of
        Some e \<Rightarrow> Some ([], Inl e)
      | None \<Rightarrow>
          (case fetch_messages w (o_pinsOnly opts) [EvProgress] of
             None \<Rightarrow> None
           | Some (tr, Inl err) \<Rightarrow> Some (tr, Inl (Fetch_failed err))
           | Some (tr, Inr messages) \<Rightarrow> Some (migrate_fetched toLowerCase w opts messages tr)))"

section \<open>Observations on a trace\<close>

text \<open>
  What a trace shows: the calls of \<^verbatim>\<open>webhook.send\<close> and those among them that
  succeeded, the deletions of the webhook, the page requests, whether the forum post and
  the webhook were created. The predicates \<open>is_fetch_event\<close>, \<open>is_replay_event\<close> and
  \<open>is_final_event\<close> name the events of the three phases of a run.
\<close>

fun is_send :: "event \<Rightarrow> bool" where
  "is_send (EvSend pl ok) = True"
| "is_send _ = False"

fun is_send_ok :: "event \<Rightarrow> bool" where
  "is_send_ok (EvSend pl ok) = ok"
| "is_send_ok _ = False"

fun is_delete :: "event \<Rightarrow> bool" where
  "is_delete (EvDeleteWebhook ok) = True"
| "is_delete _ = False"

fun is_post_created :: "event \<Rightarrow> bool" where
  "is_post_created (EvCreateThread req ok) = ok"
| "is_post_created _ = False"

fun is_webhook_created :: "event \<Rightarrow> bool" where
  "is_webhook_created (EvCreateWebhook ok) = ok"
| "is_webhook_created _ = False"

fun is_download :: "event \<Rightarrow> bool" where
  "is_download (EvDownload url) = True"
| "is_download _ = False"

fun is_fetch_event :: "event \<Rightarrow> bool" where
  "is_fetch_event EvProgress = True"
| "is_fetch_event (EvSleep d) = True"
| "is_fetch_event (EvFetch opts) = True"
| "is_fetch_event EvFetchPinned = True"
| "is_fetch_event _ = False"

fun is_replay_event :: "event \<Rightarrow> bool" where
  "is_replay_event EvProgress = True"
| "is_replay_event (EvSleep d) = True"
| "is_replay_event (EvDownload url) = True"
| "is_replay_event (EvSend pl ok) = True"
| "is_replay_event _ = False"

fun is_final_event :: "event \<Rightarrow> bool" where
  "is_final_event (EvNotifySource ok) = True"
| "is_final_event (EvArchiveSource ok) = True"
| "is_final_event _ = False"

definition send_attempts :: "event list \<Rightarrow> nat" where
  "send_attempts tr = length (filter is_send tr)"

definition sends_ok :: "event list \<Rightarrow> nat" where
  "sends_ok tr = length (filter is_send_ok tr)"

definition deletions :: "event list \<Rightarrow> nat" where
  "deletions tr = length (filter is_delete tr)"

definition post_created :: "event list \<Rightarrow> bool" where
  "post_created tr = (filter is_post_created tr \<noteq> [])"

definition webhook_created :: "event list \<Rightarrow> bool" where
  "webhook_created tr = (filter is_webhook_created tr \<noteq> [])"

definition quiet_trace :: "event list \<Rightarrow> bool" where
  "quiet_trace tr = (filter is_post_created tr = [] \<and> filter is_webhook_created tr = []
     \<and> filter is_delete tr = [] \<and> filter is_send tr = [])"

fun fetch_of :: "event \<Rightarrow> fetch_opts list" where
  "fetch_of (EvFetch opts) = [opts]"
| "fetch_of _ = []"

definition fetches_of :: "event list \<Rightarrow> fetch_opts list" where
  "fetches_of tr = concat (map fetch_of tr)"

fun is_webhook_failure :: "fatal \<Rightarrow> bool" where
  "is_webhook_failure (Create_webhook_failed msg) = True"
| "is_webhook_failure _ = False"

section \<open>Notions of the specification\<close>

text \<open>
  A message is \<open>silent\<close> when it reaches the transformer (it is neither a system
  message nor entirely empty) and the transformer finds nothing to send.
\<close>

definition silent :: "message \<Rightarrow> bool" where
  "silent m = (\<not> msg_system m \<and> \<not> is_empty_message m \<and> nothing_to_send m)"

text \<open>
  A channel \<open>serves\<close> the pages \<open>ps\<close> from the cursor \<open>cur\<close> when it answers the
  request with that cursor by the first page, the request with the id of the last message
  of each page by the next page, and the request after the last page by the empty page;
  \<open>cursors\<close> lists the cursors of these requests. \<open>newest_first\<close> is the order in which
  the platform lists messages, \<open>oldest_first\<close> the chronological one.
\<close>

fun serves :: "world \<Rightarrow> jsstring option \<Rightarrow> message list list \<Rightarrow> bool" where
  "serves w cur [] = (w_fetch_page w (page_opts cur) = Inr [])"
| "serves w cur (p # ps) =
     (p \<noteq> [] \<and> w_fetch_page w (page_opts cur) = Inr p \<and> serves w (Some (msg_id (last p))) ps)"

fun cursors :: "jsstring option \<Rightarrow> message list list \<Rightarrow> jsstring option list" where
  "cursors cur [] = [cur]"
| "cursors cur (p # ps) = cur # cursors (Some (msg_id (last p))) ps"

definition newest_first :: "message list \<Rightarrow> bool" where
  "newest_first ms = sorted_wrt (\<lambda>a b. msg_createdTimestamp a \<ge> msg_createdTimestamp b) ms"

definition oldest_first :: "message list \<Rightarrow> bool" where
  "oldest_first ms = sorted_wrt (\<lambda>a b. msg_createdTimestamp a \<le> msg_createdTimestamp b) ms"

text \<open>
  The tag that the fallback of the tag resolution applies: the first available tag whose
  lower-cased name is \<^verbatim>\<open>migrated\<close>, if there is one.
\<close>

definition migrated_tag :: "(jsstring \<Rightarrow> jsstring) \<Rightarrow> forum_channel \<Rightarrow> jsstring list" where
  "migrated_tag toLowerCase forum =
     (case find (\<lambda>t. toLowerCase (tag_name t) = ascii ''migrated'') (frm_availableTags forum) of
        Some t \<Rightarrow> [tag_id t]
      | None \<Rightarrow> [])"

text \<open>
  The attachments of a message in the words of the specification, written without the
  functions of the source. An attachment is oversize when it declares more than 25 MiB
  (26214400 bytes). A download fails when the request is rejected, when the response is
  not ok (the reason is then \<^verbatim>\<open>HTTP\<close> and the status), or when reading the body is
  rejected; otherwise it yields the bytes, packaged under the attachment's name
  (\<^verbatim>\<open>attachment\<close> when it has none) and description. The size of an oversize file is
  printed in MB below 1 GiB and in GB from there, rounded to the nearest tenth, the
  upper one on a tie. \<open>digits_value\<close> reads a decimal numeral.
\<close>

definition is_digit :: "nat \<Rightarrow> bool" where
  "is_digit c = (48 \<le> c \<and> c \<le> 57)"

definition digits_value :: "jsstring \<Rightarrow> nat" where
  "digits_value s = foldl (\<lambda>v c. 10 * v + (c - 48)) 0 s"

definition oversize :: "attachment \<Rightarrow> bool" where
  "oversize a = (att_size a > 26214400)"

definition fetched_bytes :: "world \<Rightarrow> attachment \<Rightarrow> jsstring + nat list" where
  "fetched_bytes w a =
     (case w_http_fetch w (att_url a) of
        Net_error err \<Rightarrow> Inl (err_message err)
      | Http_resp ok status body \<Rightarrow>
          if ok then (case body of Inl err \<Rightarrow> Inl (err_message err) | Inr buf \<Rightarrow> Inr buf)
          else Inl (ascii ''HTTP '' @ show_nat status))"

definition packaged :: "nat list \<Rightarrow> attachment \<Rightarrow> outfile" where
  "packaged buf a =
     \<lparr>file_data = buf,
      file_name = (if att_name a = [] then ascii ''attachment'' else att_name a),
      file_description =
        (case att_description a of None \<Rightarrow> None | Some d \<Rightarrow> if d = [] then None else Some d)\<rparr>"

definition rounded_tenths :: "nat \<Rightarrow> nat \<Rightarrow> nat" where
  "rounded_tenths bytes unit =
     10 * bytes div unit + (if unit \<le> 2 * (10 * bytes mod unit) then 1 else 0)"

definition size_text :: "nat \<Rightarrow> jsstring" where
  "size_text bytes =
     (if bytes < 1073741824
      then show_nat (rounded_tenths bytes 1048576 div 10) @ ascii ''.''
             @ show_nat (rounded_tenths bytes 1048576 mod 10) @ ascii '' MB''
      else show_nat (rounded_tenths bytes 1073741824 div 10) @ ascii ''.''
             @ show_nat (rounded_tenths bytes 1073741824 mod 10) @ ascii '' GB'')"

definition large_file_line :: "attachment \<Rightarrow> jsstring" where
  "large_file_line a =
     [10] @ ascii ''-# '' @ [0x26A0, 0xFE0F] @ ascii '' Skipped large file: **'' @ att_name a
       @ ascii ''** ('' @ size_text (att_size a) @ ascii '')''"

definition failed_download_line :: "attachment \<Rightarrow> jsstring \<Rightarrow> jsstring" where
  "failed_download_line a reason =
     [10] @ ascii ''-# '' @ [0x26A0, 0xFE0F] @ ascii '' Could not download: **'' @ att_name a
       @ ascii ''** '' @ [0x2014] @ ascii '' '' @ reason"

text \<open>
  The files that can be transferred, in the order of the attachments; the outgoing
  files, at most ten of them; the warning lines, one for each oversize attachment and
  each failed download, in the order of the attachments, followed by the line with the
  number of files beyond the tenth; and the payload that results for a message.
\<close>

definition transferable :: "world \<Rightarrow> attachment list \<Rightarrow> outfile list" where
  "transferable w atts =
     concat (map (\<lambda>a. if oversize a then []
                        else (case fetched_bytes w a of
                                Inr buf \<Rightarrow> [packaged buf a]
                              | Inl reason \<Rightarrow> [])) atts)"

definition outgoing_files :: "world \<Rightarrow> attachment list \<Rightarrow> outfile list" where
  "outgoing_files w atts = take 10 (transferable w atts)"

definition warning_text :: "world \<Rightarrow> attachment list \<Rightarrow> jsstring" where
  "warning_text w atts =
     concat (map (\<lambda>a. if oversize a then large_file_line a
                        else (case fetched_bytes w a of
                                Inr buf \<Rightarrow> []
                              | Inl reason \<Rightarrow> failed_download_line a reason)) atts)
     @ (if length (transferable w atts) > 10
        then [10] @ ascii ''-# '' @ [0x26A0, 0xFE0F] @ ascii '' ''
               @ show_nat (length (transferable w atts) - 10)
               @ ascii '' additional file(s) could not be included (10-file limit per message)''
        else [])"

definition outgoing_payload :: "world \<Rightarrow> jsstring \<Rightarrow> message \<Rightarrow> payload" where
  "outgoing_payload w tid m =
     \<lparr>p_threadId = tid,
      p_content = build_content m @ warning_text w (msg_attachments m),
      p_files = outgoing_files w (msg_attachments m),
      p_embeds = richEmbeds m\<rparr>"

text \<open>
  The same three parts written with the helper functions of the source, as the loop of
  lines 389 to 406 builds them.
\<close>

definition transferred :: "world \<Rightarrow> attachment list \<Rightarrow> outfile list" where
  "transferred w atts =
     concat (map (\<lambda>a. if att_size a > MAX_FILE_SIZE then []
                        else (case download w a of Inr f \<Rightarrow> [f] | Inl reason \<Rightarrow> [])) atts)"

definition warning_lines :: "world \<Rightarrow> attachment list \<Rightarrow> jsstring" where
  "warning_lines w atts =
     concat (map (\<lambda>a. if att_size a > MAX_FILE_SIZE then warn_large a
                        else (case download w a of
                                Inr f \<Rightarrow> []
                              | Inl reason \<Rightarrow> warn_download a reason)) atts)"

definition omitted_line :: "world \<Rightarrow> attachment list \<Rightarrow> jsstring" where
  "omitted_line w atts =
     (if length (transferred w atts) > 10
      then warn_omitted (length (transferred w atts) - 10) else [])"

text \<open>
  The send of a message succeeds, from the trace \<open>tr\<close> on, when the message reaches
  the transformer with something to send and either the first \<^verbatim>\<open>webhook.send\<close> succeeds
  or it fails with status or code 429 and the send after the pause succeeds.
  \<open>attachments_delivered\<close> adds up, over the messages of a run in their order, the
  declared attachments of those whose send succeeds; the state in which a message is
  met is the one the loop body leaves after the message before it.
\<close>

definition delivered :: "world \<Rightarrow> jsstring \<Rightarrow> event list \<Rightarrow> message \<Rightarrow> bool" where
  "delivered w tid tr m =
     (\<not> msg_system m \<and> \<not> is_empty_message m \<and> \<not> nothing_to_send m
      \<and> (case sendMigratedMessage w tr tid m of
            (tr1, None) \<Rightarrow> True
          | (tr1, Some err) \<Rightarrow>
              (err_status err = Some 429 \<or> err_code err = Some 429)
              \<and> snd (sendMigratedMessage w (tr1 @ [EvSleep (retry_delay err + 500)]) tid m)
                  = None))"

fun attachments_delivered ::
  "world \<Rightarrow> jsstring \<Rightarrow> message list \<Rightarrow> event list \<times> counters \<Rightarrow> nat" where
  "attachments_delivered w tid [] st = 0"
| "attachments_delivered w tid (m # ms) st =
     (if delivered w tid (fst st) m then length (msg_attachments m) else 0)
       + attachments_delivered w tid ms (replay_message w tid m st)"

section \<open>Concrete platforms, channels and messages\<close>

text \<open>
  Lower-casing of ASCII letters stands in for \<^verbatim>\<open>toLowerCase\<close> on the concrete inputs,
  whose tag names are ASCII.
\<close>

definition ascii_lower :: "jsstring \<Rightarrow> jsstring" where
  "ascii_lower s = map (\<lambda>c. if 65 \<le> c \<and> c \<le> 90 then c + 32 else c) s"

text \<open>
  A platform on which every call succeeds, with an empty channel; a source channel and a
  forum with the tags \<^verbatim>\<open>Migrated\<close> and \<^verbatim>\<open>Archive\<close> that does not require a tag; requests
  for the pinned messages with no tag name, with the tag name \<^verbatim>\<open>Foo\<close> and with the tag name
  \<^verbatim>\<open>archive\<close>.
\<close>

definition quiet_world :: world where
  "quiet_world =
     \<lparr>w_fetch_page = (\<lambda>opts. Inr []), w_fetch_pinned = Inr [],
      w_threads_create = (\<lambda>req. Inr \<lparr>thread_id = ascii ''900'', thread_url = ascii ''u/900''\<rparr>),
      w_create_webhook = None, w_webhook_send = (\<lambda>tr pl. None), w_webhook_delete = None,
      w_http_fetch = (\<lambda>url. Http_resp True 200 (Inr [1, 2, 3])),
      w_source_send = None, w_source_edit = None, w_rate_limit_delay = 1500\<rparr>"

definition art_gallery :: source_channel where
  "art_gallery = \<lparr>src_type = GuildText, src_name = ascii ''art-gallery'',
     src_perms = [ViewChannel, ReadMessageHistory]\<rparr>"

definition portfolio_forum :: forum_channel where
  "portfolio_forum = \<lparr>frm_type = GuildForum,
     frm_perms = [SendMessages, ManageWebhooks, CreatePublicThreads],
     frm_availableTags = [\<lparr>tag_id = ascii ''11'', tag_name = ascii ''Migrated''\<rparr>,
                          \<lparr>tag_id = ascii ''12'', tag_name = ascii ''Archive''\<rparr>],
     frm_requireTag = False\<rparr>"

definition pins_options :: options where
  "pins_options = \<lparr>o_sourceChannel = art_gallery, o_forumChannel = portfolio_forum,
     o_postName = None, o_tagName = None, o_pinsOnly = True, o_archiveSource = False\<rparr>"

definition foo_options :: options where
  "foo_options = pins_options \<lparr>o_tagName := Some (ascii ''Foo'')\<rparr>"

definition archive_options :: options where
  "archive_options = pins_options \<lparr>o_tagName := Some (ascii ''archive'')\<rparr>"

definition art_gallery_post :: create_req where
  "art_gallery_post = \<lparr>cr_name = ascii ''Art Gallery'', cr_appliedTags = [ascii ''11'']\<rparr>"

text \<open>
  Messages: a plain text message and the payload sent for it; a message whose text is one
  space; an attachment of 30 MiB, a message that carries it below two characters of text
  and one that carries it below 1990 characters of text, with the content sent for the
  latter; plain messages with a given id and creation time.
\<close>

definition hello_message :: message where
  "hello_message =
     \<lparr>msg_id = ascii ''5'', msg_content = ascii ''hello'', msg_system = False,
      msg_attachments = [], msg_embeds = [], msg_stickers = [],
      msg_reference = None, msg_createdTimestamp = 1700000000000\<rparr>"

definition hello_payload :: payload where
  "hello_payload = \<lparr>p_threadId = ascii ''900'',
     p_content = ascii ''hello'' @ [10] @ ascii ''-# <t:1700000000:f>'',
     p_files = [], p_embeds = []\<rparr>"

definition blank_message :: message where
  "blank_message =
     \<lparr>msg_id = ascii ''6'', msg_content = [32], msg_system = False,
      msg_attachments = [], msg_embeds = [], msg_stickers = [],
      msg_reference = None, msg_createdTimestamp = 1700000000000\<rparr>"

definition big_file :: attachment where
  "big_file = \<lparr>att_name = ascii ''big.bin'', att_size = 30 * 1024 * 1024,
     att_url = ascii ''cdn/big.bin'', att_description = None\<rparr>"

definition file_message :: message where
  "file_message =
     \<lparr>msg_id = ascii ''7'', msg_content = ascii ''hi'', msg_system = False,
      msg_attachments = [big_file], msg_embeds = [], msg_stickers = [],
      msg_reference = None, msg_createdTimestamp = 1700000000000\<rparr>"

definition file_payload :: payload where
  "file_payload = \<lparr>p_threadId = ascii ''900'',
     p_content = build_content file_message @ warn_large big_file,
     p_files = [], p_embeds = []\<rparr>"

definition long_message :: message where
  "long_message =
     \<lparr>msg_id = ascii ''8'', msg_content = replicate 1990 97, msg_system = False,
      msg_attachments = [big_file], msg_embeds = [], msg_stickers = [],
      msg_reference = None, msg_createdTimestamp = 1700000000000\<rparr>"

definition long_payload_content :: jsstring where
  "long_payload_content =
     replicate 1976 97 @ [0x2026, 10] @ ascii ''-# <t:1700000000:f>''
       @ [10] @ ascii ''-# '' @ [0x26A0, 0xFE0F]
       @ ascii '' Skipped large file: **big.bin** (30.0 MB)''"

definition memo :: "string \<Rightarrow> int \<Rightarrow> message" where
  "memo i ts =
     \<lparr>msg_id = ascii i, msg_content = ascii ''note'', msg_system = False,
      msg_attachments = [], msg_embeds = [], msg_stickers = [],
      msg_reference = None, msg_createdTimestamp = ts\<rparr>"

text \<open>
  A message with three attachments: the one of 30 MiB, one whose download is answered
  with status 404, and one that downloads; and the payload sent for it.
\<close>

definition gone_file :: attachment where
  "gone_file = \<lparr>att_name = ascii ''gone.png'', att_size = 1000,
     att_url = ascii ''cdn/gone.png'', att_description = None\<rparr>"

definition small_file :: attachment where
  "small_file = \<lparr>att_name = ascii ''cat.png'', att_size = 2000,
     att_url = ascii ''cdn/cat.png'', att_description = Some (ascii ''a cat'')\<rparr>"

definition album_message :: message where
  "album_message =
     \<lparr>msg_id = ascii ''9'', msg_content = ascii ''hi'', msg_system = False,
      msg_attachments = [big_file, gone_file, small_file], msg_embeds = [], msg_stickers = [],
      msg_reference = None, msg_createdTimestamp = 1700000000000\<rparr>"

definition album_payload :: payload where
  "album_payload =
     \<lparr>p_threadId = ascii ''900'',
      p_content = ascii ''hi'' @ [10] @ ascii ''-# <t:1700000000:f>''
        @ [10] @ ascii ''-# '' @ [0x26A0, 0xFE0F]
        @ ascii '' Skipped large file: **big.bin** (30.0 MB)''
        @ [10] @ ascii ''-# '' @ [0x26A0, 0xFE0F]
        @ ascii '' Could not download: **gone.png** '' @ [0x2014] @ ascii '' HTTP 404'',
      p_files = [\<lparr>file_data = [7, 8, 9], file_name = ascii ''cat.png'',
                  file_description = Some (ascii ''a cat'')\<rparr>],
      p_embeds = []\<rparr>"

text \<open>
  Platforms: one that rejects the creation of the webhook; one whose only pinned message
  is the blank one; one with the plain message pinned; one on which every send and the
  deletion of the webhook fail; a channel of three messages in two pages; a webhook that
  answers the first send with a rate limit of five seconds.
\<close>

definition no_webhook_world :: world where
  "no_webhook_world = quiet_world
     \<lparr>w_fetch_pinned := Inr [hello_message],
      w_create_webhook := Some (new_Error (ascii ''Missing Permissions''))\<rparr>"

definition blank_world :: world where
  "blank_world = quiet_world \<lparr>w_fetch_pinned := Inr [blank_message]\<rparr>"

definition hello_world :: world where
  "hello_world = quiet_world \<lparr>w_fetch_pinned := Inr [hello_message]\<rparr>"

definition rough_world :: world where
  "rough_world = quiet_world
     \<lparr>w_fetch_pinned := Inr [hello_message],
      w_webhook_send := (\<lambda>tr pl. Some (new_Error (ascii ''Unknown Webhook''))),
      w_webhook_delete := Some (new_Error (ascii ''Unknown Webhook''))\<rparr>"

definition paged_world :: world where
  "paged_world = quiet_world
     \<lparr>w_fetch_page := (\<lambda>opts.
        if fo_before opts = None then Inr [memo ''3'' 3000, memo ''2'' 2000]
        else if fo_before opts = Some (ascii ''2'') then Inr [memo ''1'' 1000]
        else Inr [])\<rparr>"

definition rate_limit_error :: js_error where
  "rate_limit_error = \<lparr>err_status = Some 429, err_code = None, err_retryAfter = Some 5,
     err_message = ascii ''Too Many Requests''\<rparr>"

definition limited_world :: world where
  "limited_world = quiet_world
     \<lparr>w_webhook_send := (\<lambda>tr pl. if send_attempts tr = 0 then Some rate_limit_error else None)\<rparr>"

text \<open>
  A platform whose only pinned message carries the file of 30 MiB, and one on which
  the download of \<^verbatim>\<open>cdn/gone.png\<close> is answered with status 404.
\<close>

definition file_world :: world where
  "file_world = quiet_world \<lparr>w_fetch_pinned := Inr [file_message]\<rparr>"

definition flaky_cdn_world :: world where
  "flaky_cdn_world = quiet_world
     \<lparr>w_http_fetch := (\<lambda>url. if url = ascii ''cdn/gone.png''
                                then Http_resp False 404 (Inr [])
                                else Http_resp True 200 (Inr [7, 8, 9]))\<rparr>"

section \<open>The transformer and the replay loop\<close>

subsection \<open>Traces\<close>

lemma length_ascii [simp]: "length (ascii s) = length s"
  by (simp add: ascii_def)

lemma attach_each_trace:
  "\<exists>ext. fst (attach_each w as (tr, content, files)) = tr @ ext \<and> list_all is_download ext"
proof (induction as arbitrary: tr content files)
  case Nil
  then show ?case by simp
next
  case (Cons a as)
  show ?case
  proof (cases "att_size a > MAX_FILE_SIZE")
    case True
    then show ?thesis using Cons.IH [of tr "content @ warn_large a" files] by simp
  next
    case False
    show ?thesis
    proof (cases "download w a")
      case (Inl reason)
      obtain ext where "fst (attach_each w as (tr @ [EvDownload (att_url a)], content @ warn_download a reason, files))
          = (tr @ [EvDownload (att_url a)]) @ ext" "list_all is_download ext"
        using Cons.IH by blast
      then show ?thesis using False Inl
        by (intro exI [of _ "EvDownload (att_url a) # ext"]) simp
    next
      case (Inr f)
      obtain ext where "fst (attach_each w as (tr @ [EvDownload (att_url a)], content, files @ [f]))
          = (tr @ [EvDownload (att_url a)]) @ ext" "list_all is_download ext"
        using Cons.IH by blast
      then show ?thesis using False Inr
        by (intro exI [of _ "EvDownload (att_url a) # ext"]) simp
    qed
  qed
qed

lemma attach_files_trace:
  "\<exists>ext. fst (attach_files w m (tr, content)) = tr @ ext \<and> list_all is_download ext"
proof (cases "length (msg_attachments m) > 0")
  case False
  then show ?thesis by (simp add: attach_files_def)
next
  case True
  obtain ext where e: "fst (attach_each w (msg_attachments m) (tr, content, [])) = tr @ ext"
      "list_all is_download ext"
    using attach_each_trace by blast
  then show ?thesis using True
    by (intro exI [of _ ext]) (auto simp: attach_files_def split: prod.splits)
qed

lemma downloads_are_quiet:
  "list_all is_download ext \<Longrightarrow>
     list_all is_replay_event ext \<and> filter is_send ext = [] \<and> filter is_send_ok ext = []"
  by (induction ext) (auto elim: is_download.elims)

lemma replay_events_are_quiet:
  "list_all is_replay_event ext \<Longrightarrow>
     filter is_delete ext = [] \<and> filter is_post_created ext = []
       \<and> filter is_webhook_created ext = []"
  by (induction ext) (auto elim: is_replay_event.elims)

lemma sendMigratedMessage_trace:
  assumes "sendMigratedMessage w tr tid m = (tr', r)"
  shows "\<exists>ext. tr' = tr @ ext \<and> list_all is_replay_event ext
           \<and> send_attempts ext = (if nothing_to_send m then 0 else 1)
           \<and> sends_ok ext = (if nothing_to_send m \<or> r \<noteq> None then 0 else 1)
           \<and> (nothing_to_send m \<longrightarrow> r = None)"
proof (cases "nothing_to_send m")
  case True
  then show ?thesis using assms
    by (simp add: sendMigratedMessage_def send_attempts_def sends_ok_def)
next
  case False
  obtain ext where e: "fst (attach_files w m (tr, build_content m)) = tr @ ext"
      "list_all is_download ext"
    using attach_files_trace by blast
  obtain content files where
    a: "attach_files w m (tr, build_content m) = (tr @ ext, content, files)"
    using e(1) by (cases "attach_files w m (tr, build_content m)") auto
  define pl where
    "pl = \<lparr>p_threadId = tid, p_content = content, p_files = files, p_embeds = richEmbeds m\<rparr>"
  note q = downloads_are_quiet [OF e(2)]
  show ?thesis
  proof (cases "w_webhook_send w (tr @ ext) pl")
    case None
    then have "tr' = tr @ (ext @ [EvSend pl True])" "r = None"
      using assms False a by (simp_all add: sendMigratedMessage_def pl_def)
    then show ?thesis using False q
      by (intro exI [of _ "ext @ [EvSend pl True]"])
         (simp add: send_attempts_def sends_ok_def)
  next
    case (Some err)
    then have "tr' = tr @ (ext @ [EvSend pl False])" "r = Some err"
      using assms False a by (simp_all add: sendMigratedMessage_def pl_def)
    then show ?thesis using False q
      by (intro exI [of _ "ext @ [EvSend pl False]"])
         (simp add: send_attempts_def sends_ok_def)
  qed
qed

lemma nothing_to_send_no_attachments:
  "nothing_to_send m \<Longrightarrow> length (msg_attachments m) = 0"
  by (simp add: nothing_to_send_def)

subsection \<open>Counters\<close>

lemma send_with_retry_effect:
  assumes "send_with_retry w tid m (tr, c) = (tr', c')"
  shows "\<exists>ext. tr' = tr @ ext \<and> list_all is_replay_event ext
           \<and> sends_ok ext \<le> 1 \<and> send_attempts ext \<le> 2
           \<and> c_messageCount c' = c_messageCount c \<and> c_skippedCount c' = c_skippedCount c
           \<and> c_errorCount c \<le> c_errorCount c'
           \<and> c_errorCount c' + sends_ok ext + (if nothing_to_send m then 1 else 0)
               = c_errorCount c + 1
           \<and> c_attachmentCount c'
               = c_attachmentCount c + sends_ok ext * length (msg_attachments m)"
proof -
  obtain tr1 r1 where first: "sendMigratedMessage w tr tid m = (tr1, r1)"
    by (cases "sendMigratedMessage w tr tid m") auto
  from sendMigratedMessage_trace [OF first] obtain ext1 where
    e1: "tr1 = tr @ ext1" "list_all is_replay_event ext1"
        "send_attempts ext1 = (if nothing_to_send m then 0 else 1)"
        "sends_ok ext1 = (if nothing_to_send m \<or> r1 \<noteq> None then 0 else 1)"
        "nothing_to_send m \<longrightarrow> r1 = None"
    by blast
  show ?thesis
  proof (cases r1)
    case None
    then have "tr' = tr @ ext1"
        "c' = c\<lparr>c_attachmentCount := c_attachmentCount c + length (msg_attachments m)\<rparr>"
      using assms first e1(1) by (auto simp: send_with_retry_def)
    then show ?thesis using e1 None nothing_to_send_no_attachments [of m]
      by (intro exI [of _ ext1]) auto
  next
    case (Some err)
    then have nn: "\<not> nothing_to_send m" using e1(5) by auto
    show ?thesis
    proof (cases "is_rate_limit err")
      case False
      then have "tr' = tr @ ext1" "c' = c\<lparr>c_errorCount := c_errorCount c + 1\<rparr>"
        using assms first e1(1) Some by (auto simp: send_with_retry_def)
      then show ?thesis using e1 Some nn
        by (intro exI [of _ ext1]) auto
    next
      case True
      define d where "d = retry_delay err + 500"
      obtain tr2 r2 where second:
        "sendMigratedMessage w (tr1 @ [EvSleep d]) tid m = (tr2, r2)"
        by (cases "sendMigratedMessage w (tr1 @ [EvSleep d]) tid m") auto
      from sendMigratedMessage_trace [OF second] obtain ext2 where
        e2: "tr2 = (tr1 @ [EvSleep d]) @ ext2" "list_all is_replay_event ext2"
            "send_attempts ext2 = (if nothing_to_send m then 0 else 1)"
            "sends_ok ext2 = (if nothing_to_send m \<or> r2 \<noteq> None then 0 else 1)"
        by blast
      have tr': "tr' = tr @ (ext1 @ EvSleep d # ext2)"
        using assms first second Some True e1(1) e2(1)
        by (auto simp: send_with_retry_def d_def split: option.splits)
      have c': "c' = (if r2 = None
                      then c\<lparr>c_attachmentCount := c_attachmentCount c + length (msg_attachments m)\<rparr>
                      else c\<lparr>c_errorCount := c_errorCount c + 1\<rparr>)"
        using assms first second Some True
        by (auto simp: send_with_retry_def d_def split: option.splits)
      show ?thesis using tr' c' e1 e2 Some nn
        by (intro exI [of _ "ext1 @ EvSleep d # ext2"])
           (auto simp: send_attempts_def sends_ok_def)
    qed
  qed
qed

lemma replay_message_effect:
  assumes "replay_message w tid m (tr, c) = (tr', c')"
  shows "\<exists>ext. tr' = tr @ ext \<and> list_all is_replay_event ext
           \<and> sends_ok ext \<le> 1 \<and> send_attempts ext \<le> 2
           \<and> c_messageCount c' = c_messageCount c + 1
           \<and> c_skippedCount c' + c_errorCount c' + sends_ok ext + (if silent m then 1 else 0)
               = c_skippedCount c + c_errorCount c + 1
           \<and> c_skippedCount c \<le> c_skippedCount c' \<and> c_errorCount c \<le> c_errorCount c'
           \<and> c_skippedCount c' = c_skippedCount c + (if msg_system m \<or> is_empty_message m then 1 else 0)
           \<and> c_attachmentCount c'
               = c_attachmentCount c + sends_ok ext * length (msg_attachments m)"
proof (cases "msg_system m \<or> is_empty_message m")
  case True
  then have "tr' = tr"
      "c' = c\<lparr>c_skippedCount := c_skippedCount c + 1, c_messageCount := c_messageCount c + 1\<rparr>"
    using assms True by (auto simp: replay_message_def split: if_splits)
  then show ?thesis using True
    by (intro exI [of _ "[]"]) (auto simp: sends_ok_def send_attempts_def silent_def)
next
  case False
  obtain tr1 c1 where s: "send_with_retry w tid m (tr, c) = (tr1, c1)"
    by (cases "send_with_retry w tid m (tr, c)") auto
  from send_with_retry_effect [OF s] obtain ext where
    e: "tr1 = tr @ ext" "list_all is_replay_event ext" "sends_ok ext \<le> 1" "send_attempts ext \<le> 2"
       "c_messageCount c1 = c_messageCount c" "c_skippedCount c1 = c_skippedCount c"
       "c_errorCount c \<le> c_errorCount c1"
       "c_errorCount c1 + sends_ok ext + (if nothing_to_send m then 1 else 0) = c_errorCount c + 1"
       "c_attachmentCount c1 = c_attachmentCount c + sends_ok ext * length (msg_attachments m)"
    by blast
  define tail where "tail = (if (c_messageCount c1 + 1) mod PROGRESS_INTERVAL = 0
      then [EvProgress] else []) @ [EvSleep (w_rate_limit_delay w)]"
  have tr': "tr' = tr @ (ext @ tail)" and c': "c' = c1\<lparr>c_messageCount := c_messageCount c1 + 1\<rparr>"
    using assms False s e(1) by (auto simp: replay_message_def tail_def)
  have t: "list_all is_replay_event tail" "filter is_send_ok tail = []" "filter is_send tail = []"
    by (auto simp: tail_def)
  show ?thesis using tr' c' e t False
    by (intro exI [of _ "ext @ tail"]) (auto simp: sends_ok_def send_attempts_def silent_def)
qed

lemma replay_effect:
  "replay w tid ms (tr, c) = (tr', c') \<Longrightarrow>
   \<exists>ext. tr' = tr @ ext \<and> list_all is_replay_event ext
     \<and> c_messageCount c' = c_messageCount c + length ms
     \<and> c_skippedCount c' + c_errorCount c' + sends_ok ext + length (filter silent ms)
         = c_skippedCount c + c_errorCount c + length ms
     \<and> c_errorCount c \<le> c_errorCount c'
     \<and> c_skippedCount c' = c_skippedCount c
          + length (filter (\<lambda>m. msg_system m \<or> is_empty_message m) ms)"
proof (induction ms arbitrary: tr c)
  case Nil
  then show ?case by (intro exI [of _ "[]"]) (simp add: sends_ok_def)
next
  case (Cons m ms)
  obtain tr1 c1 where s: "replay_message w tid m (tr, c) = (tr1, c1)"
    by (cases "replay_message w tid m (tr, c)") auto
  from replay_message_effect [OF s] obtain ext1 where
    e1: "tr1 = tr @ ext1" "list_all is_replay_event ext1"
        "c_messageCount c1 = c_messageCount c + 1"
        "c_skippedCount c1 + c_errorCount c1 + sends_ok ext1 + (if silent m then 1 else 0)
               = c_skippedCount c + c_errorCount c + 1"
        "c_errorCount c \<le> c_errorCount c1"
        "c_skippedCount c1 = c_skippedCount c + (if msg_system m \<or> is_empty_message m then 1 else 0)"
    by blast
  have "replay w tid ms (tr1, c1) = (tr', c')" using Cons.prems s by simp
  from Cons.IH [OF this] obtain ext2 where
    e2: "tr' = tr1 @ ext2" "list_all is_replay_event ext2"
        "c_messageCount c' = c_messageCount c1 + length ms"
        "c_skippedCount c' + c_errorCount c' + sends_ok ext2 + length (filter silent ms)
           = c_skippedCount c1 + c_errorCount c1 + length ms"
        "c_errorCount c1 \<le> c_errorCount c'"
        "c_skippedCount c' = c_skippedCount c1
          + length (filter (\<lambda>m. msg_system m \<or> is_empty_message m) ms)"
    by blast
  show ?case using e1 e2
    by (intro exI [of _ "ext1 @ ext2"]) (auto simp: sends_ok_def)
qed

text \<open>
  A silent message is not sent, and the loop counts it in \<open>messageCount\<close> only.
\<close>

lemma silent_message_counted_as_sent:
  assumes "silent m"
  shows "sendMigratedMessage w tr tid m = (tr, None)
     \<and> send_attempts (fst (replay_message w tid m (tr, c))) = send_attempts tr
     \<and> snd (replay_message w tid m (tr, c)) = c\<lparr>c_messageCount := c_messageCount c + 1\<rparr>"
proof -
  have n: "nothing_to_send m" "\<not> msg_system m" "\<not> is_empty_message m"
    using assms by (simp_all add: silent_def)
  then have s: "sendMigratedMessage w tr tid m = (tr, None)"
    by (simp add: sendMigratedMessage_def)
  have a: "length (msg_attachments m) = 0" using n(1) by (rule nothing_to_send_no_attachments)
  have "send_with_retry w tid m (tr, c) = (tr, c)"
    using s a by (simp add: send_with_retry_def)
  then show ?thesis using s n
    by (simp add: replay_message_def send_attempts_def)
qed

text \<open>
  One iteration adds the declared attachments of the message exactly when its send
  succeeds, and the loop adds up these amounts.
\<close>

lemma replay_message_delivered:
  assumes "replay_message w tid m (tr, c) = (tr', c')"
  shows "c_attachmentCount c' = c_attachmentCount c
            + (if delivered w tid tr m then length (msg_attachments m) else 0)
       \<and> (delivered w tid tr m \<longrightarrow>
            c_errorCount c' = c_errorCount c \<and> c_skippedCount c' = c_skippedCount c)
       \<and> sends_ok tr' = sends_ok tr + (if delivered w tid tr m then 1 else 0)"
proof (cases "msg_system m \<or> is_empty_message m")
  case True
  then have "tr' = tr" "c_attachmentCount c' = c_attachmentCount c" "\<not> delivered w tid tr m"
    using assms by (auto simp: replay_message_def delivered_def split: if_splits)
  then show ?thesis by simp
next
  case False
  obtain tr1 c1 where s: "send_with_retry w tid m (tr, c) = (tr1, c1)"
    by (cases "send_with_retry w tid m (tr, c)") auto
  have c': "c' = c1\<lparr>c_messageCount := c_messageCount c1 + 1\<rparr>"
    and t': "sends_ok tr' = sends_ok tr1"
    using assms False s by (auto simp: replay_message_def sends_ok_def)
  show ?thesis
  proof (cases "nothing_to_send m")
    case True
    then have "sendMigratedMessage w tr tid m = (tr, None)" "length (msg_attachments m) = 0"
      by (simp_all add: sendMigratedMessage_def nothing_to_send_def)
    then have "tr1 = tr" "c1 = c" using s by (auto simp: send_with_retry_def)
    then show ?thesis using c' t' True by (simp add: delivered_def)
  next
    case nn: False
    obtain ta r1 where first: "sendMigratedMessage w tr tid m = (ta, r1)"
      by (cases "sendMigratedMessage w tr tid m") auto
    from sendMigratedMessage_trace [OF first] obtain ext1 where
      e1: "ta = tr @ ext1" "sends_ok ext1 = (if nothing_to_send m \<or> r1 \<noteq> None then 0 else 1)"
      by blast
    show ?thesis
    proof (cases r1)
      case None
      then have "tr1 = ta" "c1 = c\<lparr>c_attachmentCount := c_attachmentCount c + length (msg_attachments m)\<rparr>"
        using s first by (auto simp: send_with_retry_def)
      moreover have "delivered w tid tr m" using False nn first None by (simp add: delivered_def)
      ultimately show ?thesis using c' t' e1 nn None by (simp add: sends_ok_def)
    next
      case (Some err)
      show ?thesis
      proof (cases "is_rate_limit err")
        case False
        then have "tr1 = ta" "c1 = c\<lparr>c_errorCount := c_errorCount c + 1\<rparr>"
          using s first Some by (auto simp: send_with_retry_def)
        moreover have "\<not> delivered w tid tr m"
          using first Some False by (simp add: delivered_def is_rate_limit_def)
        ultimately show ?thesis using c' t' e1 nn Some by (simp add: sends_ok_def)
      next
        case True
        obtain tb r2 where second:
          "sendMigratedMessage w (ta @ [EvSleep (retry_delay err + 500)]) tid m = (tb, r2)"
          by (cases "sendMigratedMessage w (ta @ [EvSleep (retry_delay err + 500)]) tid m") auto
        from sendMigratedMessage_trace [OF second] obtain ext2 where
          e2: "tb = (ta @ [EvSleep (retry_delay err + 500)]) @ ext2"
              "sends_ok ext2 = (if nothing_to_send m \<or> r2 \<noteq> None then 0 else 1)"
          by blast
        have d: "delivered w tid tr m = (r2 = None)"
          using False nn first Some True second by (simp add: delivered_def is_rate_limit_def)
        have "tr1 = tb" "c1 = (if r2 = None
                      then c\<lparr>c_attachmentCount := c_attachmentCount c + length (msg_attachments m)\<rparr>
                      else c\<lparr>c_errorCount := c_errorCount c + 1\<rparr>)"
          using s first second Some True by (auto simp: send_with_retry_def split: option.splits)
        then show ?thesis using c' t' e1 e2 nn Some d by (simp add: sends_ok_def)
      qed
    qed
  qed
qed

lemma replay_attachments:
  "c_attachmentCount (snd (replay w tid ms st))
     = c_attachmentCount (snd st) + attachments_delivered w tid ms st"
proof (induction ms arbitrary: st)
  case Nil
  then show ?case by simp
next
  case (Cons m ms)
  obtain tr c where st: "st = (tr, c)" by (cases st) auto
  obtain tr' c' where r: "replay_message w tid m (tr, c) = (tr', c')"
    by (cases "replay_message w tid m (tr, c)") auto
  from replay_message_delivered [OF r]
  have "c_attachmentCount c' = c_attachmentCount c
            + (if delivered w tid tr m then length (msg_attachments m) else 0)" by blast
  then show ?case using Cons.IH [of "(tr', c')"] st r by simp
qed

subsection \<open>Content and files\<close>

lemma build_content_within_limit:
  "length (timestampSuffix m) + 4 \<le> MAX_CONTENT_LEN \<Longrightarrow>
   length (build_content m) \<le> MAX_CONTENT_LEN \<and> suffix (timestampSuffix m) (build_content m)"
  by (auto simp: build_content_def Let_def MAX_CONTENT_LEN_def ellipsis_def suffix_def)

lemma show_nat_length: "0 < k \<Longrightarrow> n < 10 ^ k \<Longrightarrow> length (show_nat n) \<le> k"
proof (induction n arbitrary: k rule: show_nat.induct)
  case (1 n)
  show ?case
  proof (cases "n < 10")
    case True
    then show ?thesis using 1(2) by (subst show_nat.simps) simp
  next
    case False
    then obtain j where k: "k = Suc j" "0 < j"
      using 1(2,3) by (cases k; cases "k - 1") auto
    have "n div 10 < 10 ^ j" using 1(3) k by (simp add: less_mult_imp_div_less mult.commute)
    from 1(1) [OF False k(2) this] show ?thesis
      using False k by (subst show_nat.simps) simp
  qed
qed

lemma timestampSuffix_length:
  assumes "0 \<le> msg_createdTimestamp m" "msg_createdTimestamp m < 2 ^ 53"
  shows "length (timestampSuffix m) \<le> 23"
proof -
  have "msg_createdTimestamp m div 1000 < 10 ^ 13" using assms by simp
  then have "nat (msg_createdTimestamp m div 1000) < 10 ^ 13"
    using assms(1) by (simp add: nat_less_iff)
  then have "length (show_nat (nat (msg_createdTimestamp m div 1000))) \<le> 13"
    by (intro show_nat_length) simp_all
  moreover have "0 \<le> msg_createdTimestamp m div 1000" using assms(1) by simp
  ultimately show ?thesis by (simp add: timestampSuffix_def show_int_def)
qed

lemma attach_each_result:
  "snd (attach_each w as (tr, content, files)) =
     (content @ warning_lines w as, files @ transferred w as)"
proof (induction as arbitrary: tr content files)
  case Nil
  then show ?case by (simp add: warning_lines_def transferred_def)
next
  case (Cons a as)
  show ?case
  proof (cases "att_size a > MAX_FILE_SIZE")
    case True
    then show ?thesis
      using Cons.IH [of tr "content @ warn_large a" files]
      by (simp add: warning_lines_def transferred_def)
  next
    case False
    show ?thesis
    proof (cases "download w a")
      case (Inl reason)
      then show ?thesis
        using False Cons.IH [of "tr @ [EvDownload (att_url a)]" "content @ warn_download a reason" files]
        by (simp add: warning_lines_def transferred_def)
    next
      case (Inr f)
      then show ?thesis
        using False Cons.IH [of "tr @ [EvDownload (att_url a)]" content "files @ [f]"]
        by (simp add: warning_lines_def transferred_def)
    qed
  qed
qed

lemma warning_names_file:
  "sublist (att_name a) (warn_large a) \<and> sublist (formatSize (att_size a)) (warn_large a)
   \<and> sublist (att_name a) (warn_download a reason) \<and> suffix reason (warn_download a reason)
   \<and> sublist (show_nat n) (warn_omitted n)"
proof (intro conjI)
  show "sublist (att_name a) (warn_large a)"
    unfolding sublist_def warn_large_def
    by (intro exI [of _ "warnSign @ ascii '' Skipped large file: **''"]
        exI [of _ "ascii ''** ('' @ formatSize (att_size a) @ ascii '')''"]) simp
  show "sublist (formatSize (att_size a)) (warn_large a)"
    unfolding sublist_def warn_large_def
    by (intro exI [of _ "warnSign @ ascii '' Skipped large file: **'' @ att_name a @ ascii ''** (''"]
        exI [of _ "ascii '')''"]) simp
  show "sublist (att_name a) (warn_download a reason)"
    unfolding sublist_def warn_download_def
    by (intro exI [of _ "warnSign @ ascii '' Could not download: **''"]
        exI [of _ "ascii ''** '' @ [0x2014] @ ascii '' '' @ reason"]) simp
  show "suffix reason (warn_download a reason)"
    unfolding suffix_def warn_download_def
    by (intro exI [of _ "warnSign @ ascii '' Could not download: **'' @ att_name a
          @ ascii ''** '' @ [0x2014] @ ascii '' ''"]) simp
  show "sublist (show_nat n) (warn_omitted n)"
    unfolding sublist_def warn_omitted_def
    by (intro exI [of _ "warnSign @ ascii '' ''"]
        exI [of _ "ascii '' additional file(s) could not be included (10-file limit per message)''"])
       simp
qed

lemma suffix_last: "suffix b a \<Longrightarrow> b \<noteq> [] \<Longrightarrow> last a = last b"
  by (auto simp: suffix_def)

text \<open>
  The content as it stands after line 366 is within the limit and ends with the
  timestamp suffix, for every creation time that a JavaScript number holds exactly.
\<close>

lemma truncation_before_warnings:
  assumes "0 \<le> msg_createdTimestamp m" "msg_createdTimestamp m < 2 ^ 53"
  shows "length (build_content m) \<le> MAX_CONTENT_LEN
     \<and> suffix (timestampSuffix m) (build_content m)"
  using timestampSuffix_length [OF assms] build_content_within_limit [of m]
  by (simp add: MAX_CONTENT_LEN_def)

text \<open>
  The helper functions of the source agree with the words of the specification:
  \<^verbatim>\<open>show_nat\<close> prints the decimal numeral, the size cap is 25 MiB, \<^verbatim>\<open>formatSize\<close> rounds
  to the nearest tenth, a download fails in the three ways named there, and the three
  warning lines are the texts written out there.
\<close>

lemma show_nat_decimal:
  "digits_value (show_nat n) = n \<and> list_all is_digit (show_nat n) \<and> show_nat n \<noteq> []"
proof (induction n rule: show_nat.induct)
  case (1 n)
  show ?case
  proof (cases "n < 10")
    case True
    then show ?thesis by (subst (1 2 3) show_nat.simps) (simp add: digits_value_def is_digit_def)
  next
    case False
    from 1 [OF False] have ih: "digits_value (show_nat (n div 10)) = n div 10"
      "list_all is_digit (show_nat (n div 10))" by simp_all
    have s: "show_nat n = show_nat (n div 10) @ [48 + n mod 10]"
      using False by (subst show_nat.simps) simp
    have "digits_value (show_nat n) = 10 * (n div 10) + n mod 10"
      unfolding s using ih(1) by (simp add: digits_value_def)
    moreover have "is_digit (48 + n mod 10)" by (simp add: is_digit_def)
    ultimately show ?thesis using ih(2) unfolding s by simp
  qed
qed

lemma rounded_tenths_eq:
  assumes "0 < u"
  shows "(20 * b + u) div (2 * u) = rounded_tenths b u"
proof -
  define q where "q = 10 * b div u"
  define r where "r = 10 * b mod u"
  have d: "10 * b = q * u + r" and r: "r < u" using assms by (simp_all add: q_def r_def)
  have e: "20 * b + u = q * (2 * u) + (2 * r + u)" using d by (simp add: algebra_simps)
  show ?thesis
  proof (cases "u \<le> 2 * r")
    case True
    then have "20 * b + u = (q + 1) * (2 * u) + (2 * r - u)" using e by (simp add: algebra_simps)
    moreover have "2 * r - u < 2 * u" using r True by simp
    ultimately have "(20 * b + u) div (2 * u) = q + 1"
      using assms by (metis div_mult_self3 div_less add.right_neutral mult_2 add_gr_0 not_gr_zero)
    then show ?thesis using True by (simp add: rounded_tenths_def q_def r_def)
  next
    case False
    then have "2 * r + u < 2 * u" by simp
    then have "(20 * b + u) div (2 * u) = q"
      using e assms by (metis div_mult_self3 div_less add.right_neutral mult_2 add_gr_0 not_gr_zero)
    then show ?thesis using False by (simp add: rounded_tenths_def q_def r_def)
  qed
qed

lemma oversize_iff: "(att_size a > MAX_FILE_SIZE) = oversize a"
  by (simp add: MAX_FILE_SIZE_def oversize_def)

lemma download_eq:
  "download w a = (case fetched_bytes w a of Inl r \<Rightarrow> Inl r | Inr buf \<Rightarrow> Inr (packaged buf a))"
  by (auto simp: download_def fetched_bytes_def mk_file_def packaged_def new_Error_def truthy_def
      split: http_result.splits sum.splits option.splits)

lemma formatSize_oversize: "oversize a \<Longrightarrow> formatSize (att_size a) = size_text (att_size a)"
proof -
  assume o: "oversize a"
  have g: "(20 * att_size a + 1073741824) div 2147483648 = rounded_tenths (att_size a) 1073741824"
    using rounded_tenths_eq [of 1073741824 "att_size a"] by simp
  have m: "(20 * att_size a + 1048576) div 2097152 = rounded_tenths (att_size a) 1048576"
    using rounded_tenths_eq [of 1048576 "att_size a"] by simp
  show ?thesis using o g m
    by (simp add: formatSize_def toFixed1_def Let_def size_text_def oversize_def)
qed

lemma warn_large_eq: "oversize a \<Longrightarrow> warn_large a = large_file_line a"
  by (simp add: warn_large_def large_file_line_def warnSign_def formatSize_oversize)

lemma warn_download_eq: "warn_download a reason = failed_download_line a reason"
  by (simp add: warn_download_def failed_download_line_def warnSign_def)

lemma transferred_eq: "transferred w atts = transferable w atts"
  by (induction atts)
     (auto simp: transferred_def transferable_def oversize_iff download_eq split: sum.splits)

lemma warning_text_eq:
  "warning_lines w atts @ omitted_line w atts = warning_text w atts"
proof -
  have "warning_lines w atts =
     concat (map (\<lambda>a. if oversize a then large_file_line a
                        else (case fetched_bytes w a of
                                Inr buf \<Rightarrow> []
                              | Inl reason \<Rightarrow> failed_download_line a reason)) atts)"
    by (induction atts)
       (auto simp: warning_lines_def oversize_iff download_eq warn_large_eq warn_download_eq
          split: sum.splits)
  then show ?thesis
    by (simp add: warning_text_def omitted_line_def transferred_eq warn_omitted_def warnSign_def)
qed

lemma attach_files_spec:
  "snd (attach_files w m (tr, content)) =
     (content @ warning_text w (msg_attachments m), outgoing_files w (msg_attachments m))"
proof (cases "length (msg_attachments m) > 0")
  case False
  then show ?thesis
    by (simp add: attach_files_def warning_text_def transferable_def outgoing_files_def)
next
  case True
  obtain tr' content' files where
    e: "attach_each w (msg_attachments m) (tr, content, []) = (tr', content', files)"
    by (cases "attach_each w (msg_attachments m) (tr, content, [])") auto
  from attach_each_result [of w "msg_attachments m" tr content "[]"] e
  have c: "content' = content @ warning_lines w (msg_attachments m)"
    and f: "files = transferred w (msg_attachments m)" by simp_all
  have "snd (attach_files w m (tr, content)) =
     (content @ warning_lines w (msg_attachments m) @ omitted_line w (msg_attachments m),
      take 10 (transferred w (msg_attachments m)))"
    using True e c f by (simp add: attach_files_def omitted_line_def)
  then show ?thesis by (simp add: warning_text_eq transferred_eq outgoing_files_def)
qed

lemma sendMigratedMessage_payload:
  assumes "\<not> nothing_to_send m"
  shows "\<exists>tr'. sendMigratedMessage w tr tid m =
     (tr' @ [EvSend (outgoing_payload w tid m)
                    (w_webhook_send w tr' (outgoing_payload w tid m) = None)],
      w_webhook_send w tr' (outgoing_payload w tid m))"
proof -
  obtain tr' content files where a: "attach_files w m (tr, build_content m) = (tr', content, files)"
    by (cases "attach_files w m (tr, build_content m)") auto
  from attach_files_spec [of w m tr "build_content m"] a
  have "content = build_content m @ warning_text w (msg_attachments m)"
       "files = outgoing_files w (msg_attachments m)" by simp_all
  then have "sendMigratedMessage w tr tid m =
     (tr' @ [EvSend (outgoing_payload w tid m)
                    (w_webhook_send w tr' (outgoing_payload w tid m) = None)],
      w_webhook_send w tr' (outgoing_payload w tid m))"
    using assms a
    by (auto simp: sendMigratedMessage_def outgoing_payload_def Let_def split: option.splits)
  then show ?thesis by blast
qed

section \<open>The fetcher\<close>

lemma fetch_events_are_quiet:
  "list_all is_fetch_event ext \<Longrightarrow>
     filter is_delete ext = [] \<and> filter is_post_created ext = []
       \<and> filter is_webhook_created ext = [] \<and> filter is_send ext = []
       \<and> filter is_send_ok ext = []"
  by (induction ext) (auto elim: is_fetch_event.elims)

lemma fetchLoop_trace:
  assumes "fetchLoop w all lastId batches tr = Some res"
  shows "\<exists>ext. fst res = tr @ ext \<and> list_all is_fetch_event ext"
proof (rule fetchLoop.raw_induct
    [where P = "\<lambda>w all lastId batches tr res. \<exists>ext. fst res = tr @ ext \<and> list_all is_fetch_event ext",
     OF _ assms], goal_cases)
  case (1 loop w all lastId batches tr res)
  show ?case
  proof (cases "w_fetch_page w (page_opts lastId)")
    case (Inl err)
    then show ?thesis using 1(2) by auto
  next
    case (Inr batch)
    show ?thesis
    proof (cases "length batch = 0")
      case True
      then show ?thesis using 1(2) Inr by auto
    next
      case False
      define tr1 where "tr1 = (if (batches + 1) mod 5 = 0
                  then [EvFetch (page_opts lastId), EvProgress]
                  else [EvFetch (page_opts lastId)]) @ [EvSleep 350]"
      have "loop w (all @ batch) (Some (msg_id (last batch))) (batches + 1) (tr @ tr1) = Some res"
        using 1(2) Inr False by (auto simp: tr1_def split: if_splits)
      from 1(1) [OF this] obtain ext where
        "fst res = (tr @ tr1) @ ext" "list_all is_fetch_event ext" by blast
      moreover have "list_all is_fetch_event tr1" by (simp add: tr1_def)
      ultimately show ?thesis by (intro exI [of _ "tr1 @ ext"]) simp
    qed
  qed
qed

lemma fetchLoop_pages:
  assumes "fetchLoop w all lastId batches tr = Some res"
  shows "\<forall>ms. snd res = Inr ms \<longrightarrow> (\<exists>ps. serves w lastId ps \<and> ms = rev (all @ concat ps))"
proof (rule fetchLoop.raw_induct
    [where P = "\<lambda>w all lastId batches tr res.
       \<forall>ms. snd res = Inr ms \<longrightarrow> (\<exists>ps. serves w lastId ps \<and> ms = rev (all @ concat ps))",
     OF _ assms], goal_cases)
  case (1 loop w all lastId batches tr res)
  show ?case
  proof (cases "w_fetch_page w (page_opts lastId)")
    case (Inl err)
    then show ?thesis using 1(2) by auto
  next
    case (Inr batch)
    show ?thesis
    proof (cases "length batch = 0")
      case True
      then have "snd res = Inr (rev all)" using 1(2) Inr by auto
      moreover have "serves w lastId []" using True Inr by simp
      ultimately show ?thesis by (intro allI impI exI [of _ "[]"]) simp
    next
      case False
      obtain tr1 where
        "loop w (all @ batch) (Some (msg_id (last batch))) (batches + 1) tr1 = Some res"
        using 1(2) Inr False by (auto split: if_splits)
      from 1(1) [OF this] have
        ih: "\<forall>ms. snd res = Inr ms \<longrightarrow>
               (\<exists>ps. serves w (Some (msg_id (last batch))) ps \<and> ms = rev ((all @ batch) @ concat ps))" .
      show ?thesis
      proof (intro allI impI)
        fix ms assume "snd res = Inr ms"
        with ih obtain ps where "serves w (Some (msg_id (last batch))) ps"
            "ms = rev ((all @ batch) @ concat ps)" by blast
        then show "\<exists>ps. serves w lastId ps \<and> ms = rev (all @ concat ps)"
          using Inr False by (intro exI [of _ "batch # ps"]) simp
      qed
    qed
  qed
qed

lemma fetchLoop_serves:
  "serves w lastId ps \<Longrightarrow>
     \<exists>tr'. fetchLoop w all lastId batches tr = Some (tr', Inr (rev (all @ concat ps)))
       \<and> fetches_of tr' = fetches_of tr @ map page_opts (cursors lastId ps)"
proof (induction ps arbitrary: all lastId batches tr)
  case Nil
  then show ?case
    by (subst fetchLoop.simps) (simp add: fetches_of_def)
next
  case (Cons p ps)
  define tr1 where "tr1 = (if (batches + 1) mod 5 = 0
                  then tr @ [EvFetch (page_opts lastId), EvProgress]
                  else tr @ [EvFetch (page_opts lastId)]) @ [EvSleep 350]"
  have s: "serves w (Some (msg_id (last p))) ps" and p: "p \<noteq> []"
    and f: "w_fetch_page w (page_opts lastId) = Inr p"
    using Cons.prems by simp_all
  from Cons.IH [OF s, of "all @ p" "batches + 1" tr1] obtain tr' where
    t: "fetchLoop w (all @ p) (Some (msg_id (last p))) (batches + 1) tr1
          = Some (tr', Inr (rev ((all @ p) @ concat ps)))"
       "fetches_of tr' = fetches_of tr1 @ map page_opts (cursors (Some (msg_id (last p))) ps)"
    by blast
  have "fetchLoop w all lastId batches tr = Some (tr', Inr (rev (all @ concat (p # ps))))"
    by (subst fetchLoop.simps) (use f p t(1) in \<open>simp add: tr1_def\<close>)
  moreover have "fetches_of tr1 = fetches_of tr @ [page_opts lastId]"
    by (simp add: tr1_def fetches_of_def)
  ultimately show ?case using t(2) by simp
qed

lemma fetch_messages_trace:
  assumes "fetch_messages w p tr = Some (tr', r)"
  shows "\<exists>ext. tr' = tr @ ext \<and> list_all is_fetch_event ext"
proof (cases p)
  case True
  then have "tr' = tr @ [EvFetchPinned]" using assms by (simp add: fetch_messages_def)
  then show ?thesis by simp
next
  case False
  then have "fetchLoop w [] None 0 tr = Some (tr', r)"
    using assms by (simp add: fetch_messages_def fetchAllMessages_def)
  from fetchLoop_trace [OF this] show ?thesis by simp
qed

lemma oldest_first_rev: "oldest_first (rev ms) = newest_first ms"
  by (simp add: oldest_first_def newest_first_def sorted_wrt_rev)

section \<open>The shape of a run\<close>

text \<open>
  A run that ends has one of three shapes: it throws with nothing created and nothing
  sent; it throws because the webhook was rejected, right after the post was created; or
  it returns, and its trace is the fetch, the creation of post and webhook, the replay,
  the deletion of the webhook and the final notices.
\<close>

lemma final_events_are_quiet:
  "list_all is_final_event fin \<Longrightarrow>
     filter is_delete fin = [] \<and> filter is_post_created fin = []
       \<and> filter is_webhook_created fin = [] \<and> filter is_send fin = []
       \<and> filter is_send_ok fin = []"
  by (induction fin) (auto elim: is_final_event.elims)

lemma run_with_webhook_effect:
  assumes "run_with_webhook w opts thr title ms tr = (tr', r)"
  shows "\<exists>ext fin. tr' = tr @ ext @ EvDeleteWebhook (w_webhook_delete w = None) # fin
      \<and> list_all is_replay_event ext \<and> list_all is_final_event fin
      \<and> r_messageCount r = length ms
      \<and> r_skippedCount r + r_errorCount r + sends_ok ext + length (filter silent ms) = length ms
      \<and> r_skippedCount r = length (filter (\<lambda>m. msg_system m \<or> is_empty_message m) ms)"
proof -
  obtain tr1 c where rp: "replay w (thread_id thr) ms (tr, zero_counters) = (tr1, c)"
    by (cases "replay w (thread_id thr) ms (tr, zero_counters)") auto
  from replay_effect [OF rp] obtain ext where
    e: "tr1 = tr @ ext" "list_all is_replay_event ext"
       "c_messageCount c = c_messageCount zero_counters + length ms"
       "c_skippedCount c + c_errorCount c + sends_ok ext + length (filter silent ms)
         = c_skippedCount zero_counters + c_errorCount zero_counters + length ms"
       "c_skippedCount c = c_skippedCount zero_counters
          + length (filter (\<lambda>m. msg_system m \<or> is_empty_message m) ms)"
    by blast
  define fin where "fin = EvNotifySource (w_source_send w = None)
      # (if o_archiveSource opts then [EvArchiveSource (w_source_edit w = None)] else [])"
  have "tr' = tr @ ext @ EvDeleteWebhook (w_webhook_delete w = None) # fin"
    using assms rp e(1) by (auto simp: run_with_webhook_def Let_def fin_def)
  moreover have "list_all is_final_event fin" by (simp add: fin_def)
  moreover have "r_messageCount r = c_messageCount c" "r_skippedCount r = c_skippedCount c"
      "r_errorCount r = c_errorCount c"
    using assms rp by (auto simp: run_with_webhook_def Let_def)
  ultimately show ?thesis using e
    by (intro exI [of _ ext] exI [of _ fin]) (simp add: zero_counters_def)
qed

lemma migrate_fetched_shape:
  assumes q: "list_all is_fetch_event tr"
    and run: "migrate_fetched lc w opts ms tr = (tr', res)"
  shows "(\<exists>e. res = Inl e \<and> quiet_trace tr' \<and> \<not> is_webhook_failure e)
    \<or> (\<exists>err req. res = Inl (Create_webhook_failed (err_message err))
          \<and> w_create_webhook w = Some err
          \<and> tr' = tr @ [EvProgress, EvCreateThread req True, EvCreateWebhook False])
    \<or> (\<exists>r req ext fin. res = Inr r \<and> w_create_webhook w = None \<and> ms \<noteq> []
          \<and> tr' = tr @ [EvProgress, EvCreateThread req True, EvCreateWebhook True] @ ext
                   @ EvDeleteWebhook (w_webhook_delete w = None) # fin
          \<and> list_all is_replay_event ext \<and> list_all is_final_event fin
          \<and> r_messageCount r = length ms
          \<and> r_skippedCount r + r_errorCount r + sends_ok ext + length (filter silent ms)
               = length ms
          \<and> r_skippedCount r = length (filter (\<lambda>m. msg_system m \<or> is_empty_message m) ms))"
proof -
  note fq = fetch_events_are_quiet [OF q]
  show ?thesis
  proof (cases "length ms = 0")
    case True
    then have "tr' = tr" "res = Inl No_messages"
      using run by (auto simp: migrate_fetched_def)
    then show ?thesis using fq by (simp add: quiet_trace_def)
  next
    case nonempty: False
    show ?thesis
    proof (cases "resolve_tags lc (o_forumChannel opts) (o_tagName opts)")
      case (Inl e)
      then have r: "tr' = tr @ [EvProgress]" "res = Inl e"
        using run nonempty by (auto simp: migrate_fetched_def)
      have "\<not> is_webhook_failure e"
        using Inl by (auto simp: resolve_tags_def explicit_tag_def split: sum.splits option.splits if_splits)
      then show ?thesis using r fq by (simp add: quiet_trace_def)
    next
      case (Inr appliedTags)
      define req where "req = \<lparr>cr_name = take 100 (post_title opts), cr_appliedTags = appliedTags\<rparr>"
      show ?thesis
      proof (cases "w_threads_create w req")
        case (Inl err)
        then have "tr' = tr @ [EvProgress, EvCreateThread req False]"
            "res = Inl Forum_access_denied \<or> res = Inl (Create_post_failed (err_message err))"
          using run nonempty Inr
          by (auto simp: migrate_fetched_def create_post_def req_def split: if_splits)
        then show ?thesis using fq by (auto simp: quiet_trace_def)
      next
        case created: (Inr thr)
        show ?thesis
        proof (cases "w_create_webhook w")
          case (Some err)
          then have "tr' = tr @ [EvProgress, EvCreateThread req True, EvCreateWebhook False]"
              "res = Inl (Create_webhook_failed (err_message err))"
            using run nonempty Inr created
            by (auto simp: migrate_fetched_def create_post_def req_def)
          then show ?thesis using Some by blast
        next
          case None
          obtain tr2 r where
            rw: "run_with_webhook w opts thr (post_title opts) ms
                   (tr @ [EvProgress, EvCreateThread req True, EvCreateWebhook True]) = (tr2, r)"
            by (cases "run_with_webhook w opts thr (post_title opts) ms
                   (tr @ [EvProgress, EvCreateThread req True, EvCreateWebhook True])") auto
          have res: "tr' = tr2" "res = Inr r"
            using run nonempty Inr created None rw
            by (auto simp: migrate_fetched_def create_post_def req_def)
          from run_with_webhook_effect [OF rw] obtain ext fin where
            "tr2 = (tr @ [EvProgress, EvCreateThread req True, EvCreateWebhook True]) @ ext
                   @ EvDeleteWebhook (w_webhook_delete w = None) # fin"
            "list_all is_replay_event ext" "list_all is_final_event fin"
            "r_messageCount r = length ms"
            "r_skippedCount r + r_errorCount r + sends_ok ext + length (filter silent ms) = length ms"
            "r_skippedCount r = length (filter (\<lambda>m. msg_system m \<or> is_empty_message m) ms)"
            by blast
          then have "\<exists>r req ext fin. res = Inr r \<and> w_create_webhook w = None \<and> ms \<noteq> []
              \<and> tr' = tr @ [EvProgress, EvCreateThread req True, EvCreateWebhook True] @ ext
                   @ EvDeleteWebhook (w_webhook_delete w = None) # fin
              \<and> list_all is_replay_event ext \<and> list_all is_final_event fin
              \<and> r_messageCount r = length ms
              \<and> r_skippedCount r + r_errorCount r + sends_ok ext + length (filter silent ms)
                   = length ms
              \<and> r_skippedCount r = length (filter (\<lambda>m. msg_system m \<or> is_empty_message m) ms)"
            using res None nonempty
            by (intro exI [of _ r] exI [of _ req] exI [of _ ext] exI [of _ fin]) simp
          then show ?thesis by blast
        qed
      qed
    qed
  qed
qed

lemma migrateChannel_shape:
  assumes "migrateChannel lc w opts = Some (tr', res)"
  shows "(\<exists>e. res = Inl e \<and> quiet_trace tr' \<and> \<not> is_webhook_failure e)
    \<or> (\<exists>err req tr0. list_all is_fetch_event tr0
          \<and> res = Inl (Create_webhook_failed (err_message err))
          \<and> w_create_webhook w = Some err
          \<and> tr' = tr0 @ [EvProgress, EvCreateThread req True, EvCreateWebhook False])
    \<or> (\<exists>r req tr0 ms ext fin.
          fetch_messages w (o_pinsOnly opts) [EvProgress] = Some (tr0, Inr ms)
          \<and> list_all is_fetch_event tr0
          \<and> res = Inr r \<and> w_create_webhook w = None \<and> ms \<noteq> []
          \<and> tr' = tr0 @ [EvProgress, EvCreateThread req True, EvCreateWebhook True] @ ext
                   @ EvDeleteWebhook (w_webhook_delete w = None) # fin
          \<and> list_all is_replay_event ext \<and> list_all is_final_event fin
          \<and> r_messageCount r = length ms
          \<and> r_skippedCount r + r_errorCount r + sends_ok ext + length (filter silent ms)
               = length ms
          \<and> r_skippedCount r = length (filter (\<lambda>m. msg_system m \<or> is_empty_message m) ms))"
proof (cases "validate opts")
  case (Some e)
  then have "tr' = []" "res = Inl e" using assms by (auto simp: migrateChannel_def)
  moreover have "\<not> is_webhook_failure e"
    using Some by (auto simp: validate_def split: if_splits)
  ultimately show ?thesis by (simp add: quiet_trace_def)
next
  case None
  then obtain tr0 fr where f: "fetch_messages w (o_pinsOnly opts) [EvProgress] = Some (tr0, fr)"
    using assms by (cases "fetch_messages w (o_pinsOnly opts) [EvProgress]") (auto simp: migrateChannel_def)
  from fetch_messages_trace [OF f] obtain ext0 where
    "tr0 = [EvProgress] @ ext0" "list_all is_fetch_event ext0" by blast
  then have q0: "list_all is_fetch_event tr0" by simp
  show ?thesis
  proof (cases fr)
    case (Inl err)
    then have "tr' = tr0" "res = Inl (Fetch_failed err)"
      using assms None f by (auto simp: migrateChannel_def)
    then show ?thesis using fetch_events_are_quiet [OF q0] by (simp add: quiet_trace_def)
  next
    case (Inr ms)
    then have "migrate_fetched lc w opts ms tr0 = (tr', res)"
      using assms None f by (auto simp: migrateChannel_def)
    from migrate_fetched_shape [OF q0 this] show ?thesis
      using f Inr q0 by blast
  qed
qed

lemma migrateChannel_ends:
  "fetch_messages w (o_pinsOnly opts) [EvProgress] \<noteq> None \<Longrightarrow> migrateChannel lc w opts \<noteq> None"
  by (auto simp: migrateChannel_def split: option.splits sum.splits prod.splits)

lemma pins_only_ends: "fetch_messages w True tr \<noteq> None"
  by (simp add: fetch_messages_def)

text \<open>
  Without a webhook there is no deletion call.
\<close>

lemma no_webhook_no_deletion:
  assumes "migrateChannel lc w opts = Some (tr, res)" and "\<not> webhook_created tr"
  shows "deletions tr = 0"
proof -
  from migrateChannel_shape [OF assms(1)]
  consider (early) "quiet_trace tr"
    | (hook) req tr0 where "list_all is_fetch_event tr0"
        "tr = tr0 @ [EvProgress, EvCreateThread req True, EvCreateWebhook False]"
    | (returned) req tr0 ext fin where
        "tr = tr0 @ [EvProgress, EvCreateThread req True, EvCreateWebhook True] @ ext
                   @ EvDeleteWebhook (w_webhook_delete w = None) # fin"
    by auto
  then show ?thesis
  proof cases
    case early
    then show ?thesis by (simp add: quiet_trace_def deletions_def)
  next
    case hook
    then show ?thesis using fetch_events_are_quiet [OF hook(1)] by (simp add: deletions_def)
  next
    case returned
    then show ?thesis using assms(2) by (simp add: webhook_created_def)
  qed
qed

text \<open>
  The counters of a returned summary: every fetched message is counted; system and
  empty messages are the skipped ones; and \<open>messageCount\<close> is the sum of the skipped
  messages, the successful sends, the errors and the silent messages.
\<close>

lemma accounting_up_to_silent_messages:
  assumes "migrateChannel lc w opts = Some (tr, Inr r)"
  shows "\<exists>tr0 ms. fetch_messages w (o_pinsOnly opts) [EvProgress] = Some (tr0, Inr ms)
     \<and> r_messageCount r = length ms
     \<and> r_messageCount r
          = r_skippedCount r + sends_ok tr + r_errorCount r + length (filter silent ms)
     \<and> r_skippedCount r = length (filter (\<lambda>m. msg_system m \<or> is_empty_message m) ms)"
proof -
  from migrateChannel_shape [OF assms] obtain req tr0 ms ext fin where
    s: "fetch_messages w (o_pinsOnly opts) [EvProgress] = Some (tr0, Inr ms)"
       "list_all is_fetch_event tr0"
       "tr = tr0 @ [EvProgress, EvCreateThread req True, EvCreateWebhook True] @ ext
                   @ EvDeleteWebhook (w_webhook_delete w = None) # fin"
       "list_all is_replay_event ext" "list_all is_final_event fin"
       "r_messageCount r = length ms"
       "r_skippedCount r + r_errorCount r + sends_ok ext + length (filter silent ms) = length ms"
       "r_skippedCount r = length (filter (\<lambda>m. msg_system m \<or> is_empty_message m) ms)"
    by auto
  have "sends_ok tr = sends_ok ext"
    using s(3) fetch_events_are_quiet [OF s(2)] final_events_are_quiet [OF s(5)]
    by (simp add: sends_ok_def)
  then show ?thesis using s by (intro exI [of _ tr0] exI [of _ ms]) simp
qed

text \<open>
  The \<open>attachmentCount\<close> of a returned summary is the sum of the declared
  attachments of the fetched messages whose send succeeded, counted from zero.
\<close>

lemma migrate_fetched_attachments:
  assumes "migrate_fetched lc w opts ms tr = (tr', Inr r)"
  shows "\<exists>req. r_attachmentCount r =
     attachments_delivered w (r_threadId r) ms
       (tr @ [EvProgress, EvCreateThread req True, EvCreateWebhook True], zero_counters)"
proof -
  from assms obtain tags where t: "resolve_tags lc (o_forumChannel opts) (o_tagName opts) = Inr tags"
    and n: "length ms \<noteq> 0"
    by (auto simp: migrate_fetched_def split: if_splits sum.splits)
  define req where "req = \<lparr>cr_name = take 100 (post_title opts), cr_appliedTags = tags\<rparr>"
  from assms t n obtain thr where c: "w_threads_create w req = Inr thr"
    by (auto simp: migrate_fetched_def create_post_def req_def split: if_splits sum.splits)
  from assms t n c have h: "w_create_webhook w = None"
    by (auto simp: migrate_fetched_def create_post_def req_def split: option.splits)
  define tr1 where "tr1 = tr @ [EvProgress, EvCreateThread req True, EvCreateWebhook True]"
  have "snd (run_with_webhook w opts thr (post_title opts) ms tr1) = r"
    using assms t n c h
    by (auto simp: migrate_fetched_def create_post_def req_def tr1_def split: prod.splits)
  then have "r_attachmentCount r = c_attachmentCount (snd (replay w (thread_id thr) ms (tr1, zero_counters)))"
     and "r_threadId r = thread_id thr"
    by (auto simp: run_with_webhook_def Let_def split: prod.splits)
  then have "r_attachmentCount r = attachments_delivered w (r_threadId r) ms (tr1, zero_counters)"
    by (simp add: replay_attachments zero_counters_def)
  then show ?thesis unfolding tr1_def by blast
qed

lemma returned_attachmentCount:
  assumes "migrateChannel lc w opts = Some (tr, Inr r)"
  shows "\<exists>tr0 ms req. fetch_messages w (o_pinsOnly opts) [EvProgress] = Some (tr0, Inr ms)
     \<and> r_attachmentCount r =
         attachments_delivered w (r_threadId r) ms
           (tr0 @ [EvProgress, EvCreateThread req True, EvCreateWebhook True], zero_counters)"
proof -
  from assms obtain tr0 ms where f: "fetch_messages w (o_pinsOnly opts) [EvProgress] = Some (tr0, Inr ms)"
    and m: "migrate_fetched lc w opts ms tr0 = (tr, Inr r)"
    by (auto simp: migrateChannel_def split: option.splits sum.splits prod.splits)
  from migrate_fetched_attachments [OF m] f show ?thesis by blast
qed

subsection \<open>Tags\<close>

lemma join_mentions_each: "x \<in> set xs \<Longrightarrow> sublist x (join sep xs)"
proof (induction sep xs rule: join.induct)
  case (1 sep)
  then show ?case by simp
next
  case (2 sep y)
  then show ?case by simp
next
  case (3 sep y z zs)
  show ?case
  proof (cases "x = y")
    case True
    then show ?thesis by (simp add: sublist_append_rightI)
  next
    case False
    then have "sublist x (join sep (z # zs))" using 3 by simp
    then obtain ps ss where "join sep (z # zs) = ps @ x @ ss"
      by (auto simp: sublist_def)
    then have "join sep (y # z # zs) = (y @ sep @ ps) @ x @ ss" by simp
    then show ?thesis unfolding sublist_def by blast
  qed
qed

lemma available_names_mention_each:
  "t \<in> set (frm_availableTags forum) \<Longrightarrow> sublist (tag_name t) (available_names forum)"
proof -
  assume t: "t \<in> set (frm_availableTags forum)"
  then have s: "sublist (tag_name t) (join (ascii '', '') (map tag_name (frm_availableTags forum)))"
    by (intro join_mentions_each) simp
  show ?thesis
  proof (cases "join (ascii '', '') (map tag_name (frm_availableTags forum)) = []")
    case True
    then have "tag_name t = []" using s by simp
    then show ?thesis by simp
  next
    case False
    then show ?thesis using s by (simp add: available_names_def Let_def)
  qed
qed

lemma find_none_fallback:
  "fallback_tag lc forum [] = migrated_tag lc forum"
  by (cases "frm_availableTags forum")
     (simp_all add: fallback_tag_def migrated_tag_def split: option.splits)

lemma unknown_tag_stops_before_post:
  assumes t: "resolve_tags lc (o_forumChannel opts) (o_tagName opts) = Inl e"
    and run: "migrateChannel lc w opts = Some (tr, res)"
  shows "\<not> post_created tr \<and> (\<exists>e'. res = Inl e')
     \<and> (validate opts = None \<longrightarrow>
          (\<forall>tr0 ms. fetch_messages w (o_pinsOnly opts) [EvProgress] = Some (tr0, Inr ms) \<longrightarrow> ms \<noteq> []
             \<longrightarrow> tr = tr0 @ [EvProgress] \<and> res = Inl e))"
proof (cases "validate opts")
  case (Some v)
  then show ?thesis using run by (auto simp: migrateChannel_def post_created_def)
next
  case None
  then obtain tr0 fr where f: "fetch_messages w (o_pinsOnly opts) [EvProgress] = Some (tr0, fr)"
    using run by (cases "fetch_messages w (o_pinsOnly opts) [EvProgress]") (auto simp: migrateChannel_def)
  from fetch_messages_trace [OF f] obtain ext0 where
    "tr0 = [EvProgress] @ ext0" "list_all is_fetch_event ext0" by blast
  then have "list_all is_fetch_event tr0" by simp
  note q = fetch_events_are_quiet [OF this]
  show ?thesis
  proof (cases fr)
    case (Inl err)
    then show ?thesis using run None f q by (auto simp: migrateChannel_def post_created_def)
  next
    case (Inr ms)
    then have m: "migrate_fetched lc w opts ms tr0 = (tr, res)"
      using run None f by (auto simp: migrateChannel_def)
    then have "(tr = tr0 \<and> res = Inl No_messages \<and> ms = []) \<or> (tr = tr0 @ [EvProgress] \<and> res = Inl e \<and> ms \<noteq> [])"
      using t by (auto simp: migrate_fetched_def split: if_splits)
    then show ?thesis using q f Inr by (auto simp: post_created_def)
  qed
qed

text \<open>
  What the tag resolution does. A given, non-empty tag name is compared lower-cased
  with the lower-cased names of the available tags; the first tag that matches is
  applied; when none matches the error carries the requested name and the names of all
  available tags, and a run that ends has thrown with no post created. When no tag name
  is given, the first available tag whose lower-cased name is \<^verbatim>\<open>migrated\<close> is applied if
  there is one. The forum's \<^verbatim>\<open>RequireTag\<close> flag has no influence on the result.
\<close>

lemma tag_resolution:
  "(o_tagName opts = Some name \<and> name \<noteq> [] \<longrightarrow>
      (\<forall>t. find (\<lambda>t. lc (tag_name t) = lc name) (frm_availableTags (o_forumChannel opts)) = Some t
           \<longrightarrow> resolve_tags lc (o_forumChannel opts) (o_tagName opts) = Inr [tag_id t])
      \<and> (find (\<lambda>t. lc (tag_name t) = lc name) (frm_availableTags (o_forumChannel opts)) = None
           \<longrightarrow> resolve_tags lc (o_forumChannel opts) (o_tagName opts)
                 = Inl (Tag_not_found name (available_names (o_forumChannel opts)))
               \<and> (\<forall>t \<in> set (frm_availableTags (o_forumChannel opts)).
                     sublist (tag_name t) (available_names (o_forumChannel opts)))
               \<and> (migrateChannel lc w opts = Some (tr, res)
                     \<longrightarrow> \<not> post_created tr \<and> (\<exists>e. res = Inl e))))
   \<and> (\<not> truthy (o_tagName opts) \<longrightarrow>
        resolve_tags lc (o_forumChannel opts) (o_tagName opts)
          = Inr (migrated_tag lc (o_forumChannel opts)))
   \<and> migrated_tag lc (o_forumChannel opts \<lparr>frm_requireTag := b\<rparr>)
        = migrated_tag lc (o_forumChannel opts)"
proof (intro conjI impI allI ballI)
  fix t
  assume "o_tagName opts = Some name \<and> name \<noteq> []"
    and "find (\<lambda>t. lc (tag_name t) = lc name) (frm_availableTags (o_forumChannel opts)) = Some t"
  then show "resolve_tags lc (o_forumChannel opts) (o_tagName opts) = Inr [tag_id t]"
    by (simp add: resolve_tags_def explicit_tag_def fallback_tag_def)
next
  assume a: "o_tagName opts = Some name \<and> name \<noteq> []"
    and n: "find (\<lambda>t. lc (tag_name t) = lc name) (frm_availableTags (o_forumChannel opts)) = None"
  then show r: "resolve_tags lc (o_forumChannel opts) (o_tagName opts)
                 = Inl (Tag_not_found name (available_names (o_forumChannel opts)))"
    by (simp add: resolve_tags_def explicit_tag_def)
  {
    assume "migrateChannel lc w opts = Some (tr, res)"
    from unknown_tag_stops_before_post [OF r this]
    show "\<not> post_created tr" "\<exists>e. res = Inl e" by blast+
  }
next
  fix t assume "t \<in> set (frm_availableTags (o_forumChannel opts))"
  then show "sublist (tag_name t) (available_names (o_forumChannel opts))"
    by (rule available_names_mention_each)
next
  assume "\<not> truthy (o_tagName opts)"
  then show "resolve_tags lc (o_forumChannel opts) (o_tagName opts)
          = Inr (migrated_tag lc (o_forumChannel opts))"
    by (auto simp: resolve_tags_def explicit_tag_def truthy_def find_none_fallback
        split: option.splits)
next
  show "migrated_tag lc (o_forumChannel opts \<lparr>frm_requireTag := b\<rparr>)
        = migrated_tag lc (o_forumChannel opts)"
    by (simp add: migrated_tag_def)
qed

lemma require_tag_never_read:
  "resolve_tags lc (forum \<lparr>frm_requireTag := b\<rparr>) tagName = resolve_tags lc forum tagName"
proof -
  have e: "explicit_tag lc (forum \<lparr>frm_requireTag := b\<rparr>) tagName = explicit_tag lc forum tagName"
    by (simp add: explicit_tag_def available_names_def split: option.split)
  have f: "fallback_tag lc (forum \<lparr>frm_requireTag := b\<rparr>) tags = fallback_tag lc forum tags" for tags
    by (simp add: fallback_tag_def)
  show ?thesis by (simp add: resolve_tags_def e f split: sum.split)
qed

section \<open>Concrete runs\<close>

lemma title_art_gallery: "post_title pins_options = ascii ''Art Gallery''"
  by (simp add: post_title_def pins_options_def art_gallery_def truthy_def is_word_char_def ascii_def)

lemma tags_portfolio: "resolve_tags ascii_lower portfolio_forum None = Inr [ascii ''11'']"
  by (simp add: resolve_tags_def explicit_tag_def fallback_tag_def portfolio_forum_def
      ascii_lower_def ascii_def)

lemma validate_pins: "validate pins_options = None"
  by (simp add: validate_def missing_permissions_def pins_options_def art_gallery_def
      portfolio_forum_def)

lemma pins_options_sel:
  "o_forumChannel pins_options = portfolio_forum" "o_tagName pins_options = None"
  "o_pinsOnly pins_options = True" "o_archiveSource pins_options = False"
  by (simp_all add: pins_options_def)

lemma foo_options_sel:
  "o_forumChannel foo_options = portfolio_forum" "o_tagName foo_options = Some (ascii ''Foo'')"
  "o_pinsOnly foo_options = True" "o_archiveSource foo_options = False"
  by (simp_all add: foo_options_def pins_options_def)

lemma archive_options_sel:
  "o_forumChannel archive_options = portfolio_forum"
  "o_tagName archive_options = Some (ascii ''archive'')"
  by (simp_all add: archive_options_def pins_options_def)

lemma foo_unknown:
  "find (\<lambda>t. ascii_lower (tag_name t) = ascii_lower (ascii ''Foo''))
     (frm_availableTags portfolio_forum) = None"
  by (simp add: portfolio_forum_def ascii_lower_def ascii_def)

lemma archive_known:
  "find (\<lambda>t. ascii_lower (tag_name t) = ascii_lower (ascii ''archive''))
     (frm_availableTags portfolio_forum) = Some \<lparr>tag_id = ascii ''12'', tag_name = ascii ''Archive''\<rparr>"
  by (simp add: portfolio_forum_def ascii_lower_def ascii_def)

lemma portfolio_names: "available_names portfolio_forum = ascii ''Migrated, Archive''"
  by (simp add: available_names_def portfolio_forum_def ascii_def)

lemma validate_foo: "validate foo_options = None"
  by (simp add: validate_def missing_permissions_def foo_options_def pins_options_def
      art_gallery_def portfolio_forum_def)

lemma hello_message_sel:
  "msg_system hello_message = False" "msg_attachments hello_message = []"
  "msg_content hello_message = ascii ''hello''" "msg_embeds hello_message = []"
  "msg_stickers hello_message = []"
  by (simp_all add: hello_message_def)

lemma hello_suffix: "timestampSuffix hello_message = [10] @ ascii ''-# <t:1700000000:f>''"
  by (simp add: timestampSuffix_def hello_message_def show_int_def show_nat.simps ascii_def)

lemma hello_content:
  "build_content hello_message = ascii ''hello'' @ [10] @ ascii ''-# <t:1700000000:f>''"
  unfolding build_content_def Let_def hello_suffix
  by (simp add: hello_message_def truthy_def MAX_CONTENT_LEN_def)

lemma hello_sendable: "\<not> nothing_to_send hello_message"
  unfolding nothing_to_send_def hello_content hello_suffix
  by (simp add: trim_def is_js_space_def ascii_def)

lemma hello_not_empty: "\<not> is_empty_message hello_message"
  by (simp add: is_empty_message_def hello_message_def ascii_def)

lemma blank_message_sel:
  "msg_system blank_message = False" "msg_attachments blank_message = []"
  "msg_content blank_message = [32]" "msg_embeds blank_message = []"
  "msg_stickers blank_message = []"
  by (simp_all add: blank_message_def)

lemma blank_suffix: "timestampSuffix blank_message = [10] @ ascii ''-# <t:1700000000:f>''"
  by (simp add: timestampSuffix_def blank_message_def show_int_def show_nat.simps ascii_def)

lemma blank_content:
  "build_content blank_message = [32] @ [10] @ ascii ''-# <t:1700000000:f>''"
  unfolding build_content_def Let_def blank_suffix
  by (simp add: blank_message_def truthy_def MAX_CONTENT_LEN_def)

lemma blank_nothing_to_send: "nothing_to_send blank_message"
  unfolding nothing_to_send_def blank_content blank_suffix
  by (simp add: trim_def is_js_space_def ascii_def blank_message_sel)

lemma blank_not_empty: "\<not> is_empty_message blank_message"
  by (simp add: is_empty_message_def blank_message_def)

lemma long_suffix: "timestampSuffix long_message = [10] @ ascii ''-# <t:1700000000:f>''"
  by (simp add: timestampSuffix_def long_message_def show_int_def show_nat.simps ascii_def)

lemma long_content:
  "build_content long_message = replicate 1976 97 @ [0x2026, 10] @ ascii ''-# <t:1700000000:f>''"
  unfolding build_content_def Let_def long_suffix
  by (simp add: long_message_def truthy_def MAX_CONTENT_LEN_def ellipsis_def)

lemma long_sendable: "\<not> nothing_to_send long_message"
  by (simp add: nothing_to_send_def long_message_def)

lemma big_file_size: "formatSize (att_size big_file) = ascii ''30.0 MB''"
  by (simp add: formatSize_def toFixed1_def Let_def big_file_def show_nat.simps ascii_def)

lemma big_file_warning:
  "warn_large big_file =
     [10] @ ascii ''-# '' @ [0x26A0, 0xFE0F] @ ascii '' Skipped large file: **big.bin** (30.0 MB)''"
  unfolding warn_large_def big_file_size
  by (simp add: warnSign_def big_file_def ascii_def)

lemma long_attached:
  "attach_files w long_message (tr, build_content long_message) = (tr, long_payload_content, [])"
  unfolding long_content
  by (simp add: attach_files_def long_message_def MAX_FILE_SIZE_def big_file_warning
      long_payload_content_def)
     (simp add: big_file_def)

lemma send_hello:
  "sendMigratedMessage w tr (ascii ''900'') hello_message =
     (case w_webhook_send w tr hello_payload of
        None \<Rightarrow> (tr @ [EvSend hello_payload True], None)
      | Some err \<Rightarrow> (tr @ [EvSend hello_payload False], Some err))"
  unfolding hello_payload_def
  by (simp add: sendMigratedMessage_def hello_sendable attach_files_def hello_message_sel
      hello_content richEmbeds_def Let_def split: option.split)

lemma hello_world_sel:
  "w_fetch_pinned hello_world = Inr [hello_message]" "w_create_webhook hello_world = None"
  "w_threads_create hello_world req = Inr \<lparr>thread_id = ascii ''900'', thread_url = ascii ''u/900''\<rparr>"
  "w_webhook_send hello_world tr pl = None"
  "w_webhook_delete hello_world = None" "w_source_send hello_world = None"
  "w_rate_limit_delay hello_world = 1500"
  by (simp_all add: hello_world_def quiet_world_def)

lemma rough_world_sel:
  "w_fetch_pinned rough_world = Inr [hello_message]" "w_create_webhook rough_world = None"
  "w_threads_create rough_world req = Inr \<lparr>thread_id = ascii ''900'', thread_url = ascii ''u/900''\<rparr>"
  "w_webhook_send rough_world tr pl = Some (new_Error (ascii ''Unknown Webhook''))"
  "w_webhook_delete rough_world = Some (new_Error (ascii ''Unknown Webhook''))"
  "w_source_send rough_world = None"
  "w_rate_limit_delay rough_world = 1500"
  by (simp_all add: rough_world_def quiet_world_def)

lemma blank_world_sel:
  "w_fetch_pinned blank_world = Inr [blank_message]" "w_create_webhook blank_world = None"
  "w_threads_create blank_world req = Inr \<lparr>thread_id = ascii ''900'', thread_url = ascii ''u/900''\<rparr>"
  "w_webhook_send blank_world tr pl = None"
  "w_webhook_delete blank_world = None" "w_source_send blank_world = None"
  "w_rate_limit_delay blank_world = 1500"
  by (simp_all add: blank_world_def quiet_world_def)

lemma plain_error: "\<not> is_rate_limit (new_Error msg)"
  by (simp add: is_rate_limit_def new_Error_def)

lemma zero_counters_sel:
  "c_errorCount zero_counters = 0" "c_attachmentCount zero_counters = 0"
  "zero_counters\<lparr>c_attachmentCount := 0\<rparr> = zero_counters"
  by (simp_all add: zero_counters_def)

lemma rate_limit_error_sel:
  "is_rate_limit rate_limit_error" "retry_delay rate_limit_error = 5000"
  "err_retryAfter rate_limit_error = Some 5"
  by (simp_all add: is_rate_limit_def retry_delay_def rate_limit_error_def)

lemma replay_hello_quiet:
  "replay_message hello_world (ascii ''900'') hello_message (tr, zero_counters) =
     (tr @ [EvSend hello_payload True, EvSleep 1500],
      \<lparr>c_messageCount = 1, c_attachmentCount = 0, c_skippedCount = 0, c_errorCount = 0\<rparr>)"
  by (simp add: replay_message_def hello_message_sel hello_not_empty send_with_retry_def
      send_hello hello_world_sel zero_counters_def PROGRESS_INTERVAL_def)

lemma replay_hello_rough:
  "replay_message rough_world (ascii ''900'') hello_message (tr, zero_counters) =
     (tr @ [EvSend hello_payload False, EvSleep 1500],
      \<lparr>c_messageCount = 1, c_attachmentCount = 0, c_skippedCount = 0, c_errorCount = 1\<rparr>)"
  by (simp add: replay_message_def hello_message_sel hello_not_empty send_with_retry_def
      send_hello rough_world_sel zero_counters_def PROGRESS_INTERVAL_def plain_error)

lemma replay_blank:
  "replay_message w (ascii ''900'') blank_message (tr, zero_counters) =
     (tr @ [EvSleep (w_rate_limit_delay w)],
      \<lparr>c_messageCount = 1, c_attachmentCount = 0, c_skippedCount = 0, c_errorCount = 0\<rparr>)"
  by (simp add: replay_message_def blank_message_sel blank_not_empty send_with_retry_def
      sendMigratedMessage_def blank_nothing_to_send zero_counters_def PROGRESS_INTERVAL_def)

lemma limited_first:
  "sendMigratedMessage limited_world [] (ascii ''900'') hello_message =
     ([EvSend hello_payload False], Some rate_limit_error)"
  by (simp add: send_hello limited_world_def send_attempts_def)

lemma limited_second:
  "sendMigratedMessage limited_world [EvSend hello_payload False, EvSleep 5500] (ascii ''900'')
     hello_message =
     ([EvSend hello_payload False, EvSleep 5500, EvSend hello_payload True], None)"
  by (simp add: send_hello limited_world_def send_attempts_def)

lemma limited_run:
  "send_with_retry limited_world (ascii ''900'') hello_message ([], zero_counters) =
     ([EvSend hello_payload False, EvSleep 5500, EvSend hello_payload True], zero_counters)"
  unfolding send_with_retry_def
  by (simp add: limited_first limited_second rate_limit_error_sel hello_message_sel
      zero_counters_sel)

lemma rough_first:
  "sendMigratedMessage rough_world [] (ascii ''900'') hello_message =
     ([EvSend hello_payload False], Some (new_Error (ascii ''Unknown Webhook'')))"
  by (simp add: send_hello rough_world_sel)

lemma rough_run:
  "send_with_retry rough_world (ascii ''900'') hello_message ([], zero_counters) =
     ([EvSend hello_payload False],
      \<lparr>c_messageCount = 0, c_attachmentCount = 0, c_skippedCount = 0, c_errorCount = 1\<rparr>)"
  by (simp add: send_with_retry_def rough_first plain_error zero_counters_def)

lemma run_no_webhook:
  "migrateChannel ascii_lower no_webhook_world pins_options =
     Some ([EvProgress, EvFetchPinned, EvProgress, EvCreateThread art_gallery_post True,
            EvCreateWebhook False],
           Inl (Create_webhook_failed (ascii ''Missing Permissions'')))"
  by (simp add: migrateChannel_def validate_pins fetch_messages_def migrate_fetched_def
      pins_options_sel tags_portfolio title_art_gallery create_post_def
      new_Error_def no_webhook_world_def quiet_world_def art_gallery_post_def)

lemma run_hello:
  "migrateChannel ascii_lower hello_world pins_options =
     Some ([EvProgress, EvFetchPinned, EvProgress, EvCreateThread art_gallery_post True,
            EvCreateWebhook True, EvSend hello_payload True, EvSleep 1500,
            EvDeleteWebhook True, EvNotifySource True],
           Inr \<lparr>r_threadUrl = ascii ''u/900'', r_threadId = ascii ''900'',
                r_postTitle = ascii ''Art Gallery'', r_messageCount = 1,
                r_attachmentCount = 0, r_skippedCount = 0, r_errorCount = 0\<rparr>)"
  by (simp add: migrateChannel_def validate_pins fetch_messages_def migrate_fetched_def
      pins_options_sel tags_portfolio title_art_gallery create_post_def run_with_webhook_def
      hello_world_sel replay_hello_quiet art_gallery_post_def Let_def)

lemma run_rough:
  "migrateChannel ascii_lower rough_world pins_options =
     Some ([EvProgress, EvFetchPinned, EvProgress, EvCreateThread art_gallery_post True,
            EvCreateWebhook True, EvSend hello_payload False, EvSleep 1500,
            EvDeleteWebhook False, EvNotifySource True],
           Inr \<lparr>r_threadUrl = ascii ''u/900'', r_threadId = ascii ''900'',
                r_postTitle = ascii ''Art Gallery'', r_messageCount = 1,
                r_attachmentCount = 0, r_skippedCount = 0, r_errorCount = 1\<rparr>)"
  by (simp add: migrateChannel_def validate_pins fetch_messages_def migrate_fetched_def
      pins_options_sel tags_portfolio title_art_gallery create_post_def run_with_webhook_def
      rough_world_sel replay_hello_rough art_gallery_post_def Let_def)

lemma run_foo:
  "migrateChannel ascii_lower hello_world foo_options =
     Some ([EvProgress, EvFetchPinned, EvProgress],
           Inl (Tag_not_found (ascii ''Foo'') (ascii ''Migrated, Archive'')))"
  by (simp add: migrateChannel_def validate_foo fetch_messages_def migrate_fetched_def
      foo_options_sel hello_world_sel resolve_tags_def explicit_tag_def foo_unknown
      portfolio_names)
     (simp add: ascii_def)

lemma paged_world_serves:
  "serves paged_world None [[memo ''3'' 3000, memo ''2'' 2000], [memo ''1'' 1000]]"
  by (simp add: paged_world_def page_opts_def truthy_def memo_def ascii_def)

lemma tag_resolution_examples:
  "(o_tagName foo_options = Some (ascii ''Foo'') \<and> ascii ''Foo'' \<noteq> []
     \<and> resolve_tags ascii_lower (o_forumChannel foo_options) (o_tagName foo_options)
          = Inl (Tag_not_found (ascii ''Foo'') (ascii ''Migrated, Archive''))
     \<and> \<not> post_created [EvProgress, EvFetchPinned, EvProgress])
   \<and> (o_tagName archive_options = Some (ascii ''archive'')
     \<and> resolve_tags ascii_lower (o_forumChannel archive_options) (o_tagName archive_options)
          = Inr [ascii ''12''])
   \<and> (\<not> truthy (o_tagName pins_options)
     \<and> resolve_tags ascii_lower (o_forumChannel pins_options) (o_tagName pins_options)
          = Inr [ascii ''11''])"
proof -
  have ne: "ascii ''Foo'' \<noteq> []" "ascii ''archive'' \<noteq> []" by (simp_all add: ascii_def)
  have m: "migrated_tag ascii_lower portfolio_forum = [ascii ''11'']"
    by (simp add: migrated_tag_def portfolio_forum_def ascii_lower_def ascii_def)
  have nt: "\<not> truthy (o_tagName pins_options)" by (simp add: pins_options_sel truthy_def)
  show ?thesis
    using tag_resolution [of foo_options "ascii ''Foo''" ascii_lower hello_world
        "[EvProgress, EvFetchPinned, EvProgress]"
        "Inl (Tag_not_found (ascii ''Foo'') (ascii ''Migrated, Archive''))"]
      tag_resolution [of archive_options "ascii ''archive'' " ascii_lower]
      tag_resolution [of pins_options _ ascii_lower]
      run_foo foo_unknown archive_known ne m nt
    by (simp add: foo_options_sel archive_options_sel pins_options_sel portfolio_names)
qed

lemma file_message_sel:
  "msg_system file_message = False" "msg_attachments file_message = [big_file]"
  "msg_embeds file_message = []"
  by (simp_all add: file_message_def)

lemma file_not_empty: "\<not> is_empty_message file_message"
  by (simp add: is_empty_message_def file_message_def)

lemma file_sendable: "\<not> nothing_to_send file_message"
  by (simp add: nothing_to_send_def file_message_def)

lemma big_file_oversize: "att_size big_file > MAX_FILE_SIZE"
  by (simp add: big_file_def MAX_FILE_SIZE_def)

lemma file_attached:
  "attach_files w file_message (tr, content) = (tr, content @ warn_large big_file, [])"
  by (simp add: attach_files_def file_message_sel big_file_oversize)

lemma send_file:
  "sendMigratedMessage w tr (ascii ''900'') file_message =
     (case w_webhook_send w tr file_payload of
        None \<Rightarrow> (tr @ [EvSend file_payload True], None)
      | Some err \<Rightarrow> (tr @ [EvSend file_payload False], Some err))"
  unfolding file_payload_def
  by (simp add: sendMigratedMessage_def file_sendable file_attached file_message_sel
      richEmbeds_def Let_def split: option.split)

lemma file_world_sel:
  "w_fetch_pinned file_world = Inr [file_message]" "w_create_webhook file_world = None"
  "w_threads_create file_world req = Inr \<lparr>thread_id = ascii ''900'', thread_url = ascii ''u/900''\<rparr>"
  "w_webhook_send file_world tr pl = None"
  "w_webhook_delete file_world = None" "w_source_send file_world = None"
  "w_rate_limit_delay file_world = 1500"
  by (simp_all add: file_world_def quiet_world_def)

lemma replay_file:
  "replay_message file_world (ascii ''900'') file_message (tr, zero_counters) =
     (tr @ [EvSend file_payload True, EvSleep 1500],
      \<lparr>c_messageCount = 1, c_attachmentCount = 1, c_skippedCount = 0, c_errorCount = 0\<rparr>)"
  by (simp add: replay_message_def file_message_sel file_not_empty send_with_retry_def
      send_file file_world_sel zero_counters_def PROGRESS_INTERVAL_def)

lemma run_file:
  "migrateChannel ascii_lower file_world pins_options =
     Some ([EvProgress, EvFetchPinned, EvProgress, EvCreateThread art_gallery_post True,
            EvCreateWebhook True, EvSend file_payload True, EvSleep 1500,
            EvDeleteWebhook True, EvNotifySource True],
           Inr \<lparr>r_threadUrl = ascii ''u/900'', r_threadId = ascii ''900'',
                r_postTitle = ascii ''Art Gallery'', r_messageCount = 1,
                r_attachmentCount = 1, r_skippedCount = 0, r_errorCount = 0\<rparr>)"
  by (simp add: migrateChannel_def validate_pins fetch_messages_def migrate_fetched_def
      pins_options_sel tags_portfolio title_art_gallery create_post_def run_with_webhook_def
      file_world_sel replay_file art_gallery_post_def Let_def)

lemma album_suffix: "timestampSuffix album_message = [10] @ ascii ''-# <t:1700000000:f>''"
  by (simp add: timestampSuffix_def album_message_def show_int_def show_nat.simps ascii_def)

lemma album_content:
  "build_content album_message = ascii ''hi'' @ [10] @ ascii ''-# <t:1700000000:f>''"
  unfolding build_content_def Let_def album_suffix
  by (simp add: album_message_def truthy_def MAX_CONTENT_LEN_def)

lemma album_sendable: "\<not> nothing_to_send album_message"
  by (simp add: nothing_to_send_def album_message_def)

lemma album_outgoing: "outgoing_payload flaky_cdn_world (ascii ''900'') album_message = album_payload"
proof -
  have s: "size_text (att_size big_file) = ascii ''30.0 MB''"
    by (simp add: size_text_def rounded_tenths_def big_file_def show_nat.simps ascii_def)
  have h: "show_nat 404 = ascii ''404''" by (simp add: show_nat.simps ascii_def)
  have o: "oversize big_file" "\<not> oversize gone_file" "\<not> oversize small_file"
    by (simp_all add: oversize_def big_file_def gone_file_def small_file_def)
  have f: "fetched_bytes flaky_cdn_world gone_file = Inl (ascii ''HTTP 404'')"
      "fetched_bytes flaky_cdn_world small_file = Inr [7, 8, 9]"
    by (simp_all add: fetched_bytes_def flaky_cdn_world_def gone_file_def small_file_def h)
       (simp_all add: ascii_def)
  have p: "packaged [7, 8, 9] small_file = \<lparr>file_data = [7, 8, 9], file_name = ascii ''cat.png'',
                  file_description = Some (ascii ''a cat'')\<rparr>"
    by (simp add: packaged_def small_file_def ascii_def)
  have l: "large_file_line big_file = [10] @ ascii ''-# '' @ [0x26A0, 0xFE0F]
        @ ascii '' Skipped large file: **big.bin** (30.0 MB)''"
    unfolding large_file_line_def s by (simp add: big_file_def ascii_def)
  have d: "failed_download_line gone_file (ascii ''HTTP 404'') = [10] @ ascii ''-# '' @ [0x26A0, 0xFE0F]
        @ ascii '' Could not download: **gone.png** '' @ [0x2014] @ ascii '' HTTP 404''"
    by (simp add: failed_download_line_def gone_file_def ascii_def)
  have a: "msg_attachments album_message = [big_file, gone_file, small_file]"
      "msg_embeds album_message = []"
    by (simp_all add: album_message_def)
  show ?thesis
    unfolding outgoing_payload_def album_content
    by (simp add: a o f p l d warning_text_def transferable_def outgoing_files_def
        richEmbeds_def album_payload_def)
qed

section \<open>The claims\<close>

subsection \<open>C1: when a run throws\<close>

text \<open>
  C1 as stated fails. On a platform that rejects the creation of the webhook, the run
  throws \<^verbatim>\<open>Failed to create webhook\<close> (line 144) after the forum post was created.
\<close>

theorem webhook_failure_after_post_created:
  "migrateChannel ascii_lower no_webhook_world pins_options =
     Some ([EvProgress, EvFetchPinned, EvProgress, EvCreateThread art_gallery_post True,
            EvCreateWebhook False],
           Inl (Create_webhook_failed (ascii ''Missing Permissions'')))
   \<and> post_created [EvProgress, EvFetchPinned, EvProgress, EvCreateThread art_gallery_post True,
            EvCreateWebhook False]"
  by (simp add: run_no_webhook post_created_def)

text \<open>
  C1, amended. A run whose fetch ends comes to an end. A run that ends either returns a
  summary or throws one error, and it throws before the replay starts: no webhook exists
  and nothing was sent when it throws. The error is thrown before any forum post was
  created, with one exception: the rejection of the webhook, which is thrown after the
  post was created. Once the webhook is created the run returns a summary.
\<close>

theorem migrateChannel_throws_only_before_replay:
  "(fetch_messages w (o_pinsOnly opts) [EvProgress] \<noteq> None \<longrightarrow> migrateChannel lc w opts \<noteq> None)
   \<and> (migrateChannel lc w opts = Some (tr, Inl e) \<longrightarrow>
        \<not> webhook_created tr \<and> send_attempts tr = 0
        \<and> (post_created tr \<longrightarrow> is_webhook_failure e)
        \<and> (is_webhook_failure e \<longrightarrow> post_created tr \<and> w_create_webhook w \<noteq> None))
   \<and> (migrateChannel lc w opts = Some (tr, res) \<and> webhook_created tr \<longrightarrow> (\<exists>r. res = Inr r))"
proof (intro conjI impI)
  assume "fetch_messages w (o_pinsOnly opts) [EvProgress] \<noteq> None"
  then show "migrateChannel lc w opts \<noteq> None" by (rule migrateChannel_ends)
next
  assume a: "migrateChannel lc w opts = Some (tr, Inl e)"
  from migrateChannel_shape [OF a]
  consider (early) "quiet_trace tr" "\<not> is_webhook_failure e"
    | (hook) err req tr0 where "list_all is_fetch_event tr0"
        "e = Create_webhook_failed (err_message err)" "w_create_webhook w = Some err"
        "tr = tr0 @ [EvProgress, EvCreateThread req True, EvCreateWebhook False]"
    by auto
  then have "\<not> webhook_created tr \<and> send_attempts tr = 0
        \<and> (post_created tr \<longrightarrow> is_webhook_failure e)
        \<and> (is_webhook_failure e \<longrightarrow> post_created tr \<and> w_create_webhook w \<noteq> None)"
  proof cases
    case early
    then show ?thesis
      by (simp add: quiet_trace_def webhook_created_def send_attempts_def post_created_def)
  next
    case hook
    then show ?thesis using fetch_events_are_quiet [OF hook(1)]
      by (simp add: webhook_created_def send_attempts_def post_created_def)
  qed
  then show "\<not> webhook_created tr" "send_attempts tr = 0"
    "post_created tr \<Longrightarrow> is_webhook_failure e"
    "is_webhook_failure e \<Longrightarrow> post_created tr"
    "is_webhook_failure e \<Longrightarrow> w_create_webhook w \<noteq> None"
    by blast+
next
  assume a: "migrateChannel lc w opts = Some (tr, res) \<and> webhook_created tr"
  then have r: "migrateChannel lc w opts = Some (tr, res)" and h: "webhook_created tr" by auto
  from migrateChannel_shape [OF r]
  consider (early) "quiet_trace tr"
    | (hook) req tr0 where "list_all is_fetch_event tr0"
        "tr = tr0 @ [EvProgress, EvCreateThread req True, EvCreateWebhook False]"
    | (returned) r where "res = Inr r"
    by auto
  then show "\<exists>r. res = Inr r"
  proof cases
    case early
    then show ?thesis using h by (simp add: quiet_trace_def webhook_created_def)
  next
    case hook
    then show ?thesis using h fetch_events_are_quiet [OF hook(1)]
      by (simp add: webhook_created_def)
  next
    case returned
    then show ?thesis by blast
  qed
qed

text \<open>
  C1, witness: the run that throws on the rejected webhook, and a run that creates the
  webhook and returns although its send and the deletion of the webhook fail.
\<close>

theorem migrateChannel_throws_only_before_replay_witness:
  "(fetch_messages no_webhook_world (o_pinsOnly pins_options) [EvProgress] \<noteq> None
     \<and> migrateChannel ascii_lower no_webhook_world pins_options \<noteq> None
     \<and> post_created [EvProgress, EvFetchPinned, EvProgress, EvCreateThread art_gallery_post True,
            EvCreateWebhook False]
     \<and> is_webhook_failure (Create_webhook_failed (ascii ''Missing Permissions''))
     \<and> w_create_webhook no_webhook_world \<noteq> None)
   \<and> (webhook_created [EvProgress, EvFetchPinned, EvProgress, EvCreateThread art_gallery_post True,
            EvCreateWebhook True, EvSend hello_payload False, EvSleep 1500,
            EvDeleteWebhook False, EvNotifySource True]
     \<and> (\<exists>r. migrateChannel ascii_lower rough_world pins_options =
            Some ([EvProgress, EvFetchPinned, EvProgress, EvCreateThread art_gallery_post True,
                   EvCreateWebhook True, EvSend hello_payload False, EvSleep 1500,
                   EvDeleteWebhook False, EvNotifySource True], Inr r)))"
  using migrateChannel_throws_only_before_replay
    [of no_webhook_world pins_options ascii_lower
        "[EvProgress, EvFetchPinned, EvProgress, EvCreateThread art_gallery_post True,
            EvCreateWebhook False]"
        "Create_webhook_failed (ascii ''Missing Permissions'')"]
    migrateChannel_throws_only_before_replay
    [of rough_world pins_options ascii_lower
        "[EvProgress, EvFetchPinned, EvProgress, EvCreateThread art_gallery_post True,
            EvCreateWebhook True, EvSend hello_payload False, EvSleep 1500,
            EvDeleteWebhook False, EvNotifySource True]" _
        "Inr \<lparr>r_threadUrl = ascii ''u/900'', r_threadId = ascii ''900'',
                r_postTitle = ascii ''Art Gallery'', r_messageCount = 1,
                r_attachmentCount = 0, r_skippedCount = 0, r_errorCount = 1\<rparr>"]
    run_no_webhook run_rough
  by (simp add: pins_options_sel fetch_messages_def webhook_created_def post_created_def)

subsection \<open>C2: the webhook is deleted exactly once\<close>

text \<open>
  C2. In every run that ends and in which the webhook was created, \<^verbatim>\<open>webhook.delete\<close> is
  called exactly once, after the creation and after every send, and the run returns a
  summary also when that call fails: the event records the failure and nothing is thrown.
  Every throwing call of the loop body is caught inside the loop, so the \<^verbatim>\<open>finally\<close>
  block is reached on every path of the replay.
\<close>

theorem webhook_deleted_exactly_once:
  assumes "migrateChannel lc w opts = Some (tr, res)" and "webhook_created tr"
  shows "deletions tr = 1 \<and> (\<exists>r. res = Inr r)
     \<and> (\<exists>before after. tr = before @ EvDeleteWebhook (w_webhook_delete w = None) # after
           \<and> webhook_created before \<and> deletions before = 0
           \<and> deletions after = 0 \<and> send_attempts after = 0)"
proof -
  from migrateChannel_shape [OF assms(1)]
  consider (early) "quiet_trace tr"
    | (hook) req tr0 where "list_all is_fetch_event tr0"
        "tr = tr0 @ [EvProgress, EvCreateThread req True, EvCreateWebhook False]"
    | (returned) r req tr0 ext fin where "res = Inr r" "list_all is_fetch_event tr0"
        "tr = tr0 @ [EvProgress, EvCreateThread req True, EvCreateWebhook True] @ ext
                   @ EvDeleteWebhook (w_webhook_delete w = None) # fin"
        "list_all is_replay_event ext" "list_all is_final_event fin"
    by auto
  then show ?thesis
  proof cases
    case early
    then show ?thesis using assms(2) by (simp add: quiet_trace_def webhook_created_def)
  next
    case hook
    then show ?thesis using assms(2) fetch_events_are_quiet [OF hook(1)]
      by (simp add: webhook_created_def)
  next
    case returned
    note q = fetch_events_are_quiet [OF returned(2)] replay_events_are_quiet [OF returned(4)]
      final_events_are_quiet [OF returned(5)]
    define before where
      "before = tr0 @ [EvProgress, EvCreateThread req True, EvCreateWebhook True] @ ext"
    have "tr = before @ EvDeleteWebhook (w_webhook_delete w = None) # fin"
      using returned(3) by (simp add: before_def)
    moreover have "webhook_created before" "deletions before = 0"
      using q by (simp_all add: before_def webhook_created_def deletions_def)
    moreover have "deletions fin = 0" "send_attempts fin = 0"
      using q by (simp_all add: deletions_def send_attempts_def)
    moreover have "deletions tr = 1"
      using q returned(3) by (simp add: deletions_def)
    ultimately show ?thesis using returned(1) by blast
  qed
qed

text \<open>
  C2, witness: a run in which the send fails and the deletion of the webhook fails.
\<close>

theorem webhook_deleted_exactly_once_witness:
  "webhook_created [EvProgress, EvFetchPinned, EvProgress, EvCreateThread art_gallery_post True,
            EvCreateWebhook True, EvSend hello_payload False, EvSleep 1500,
            EvDeleteWebhook False, EvNotifySource True]
   \<and> w_webhook_delete rough_world \<noteq> None
   \<and> deletions [EvProgress, EvFetchPinned, EvProgress, EvCreateThread art_gallery_post True,
            EvCreateWebhook True, EvSend hello_payload False, EvSleep 1500,
            EvDeleteWebhook False, EvNotifySource True] = 1"
  using webhook_deleted_exactly_once [OF run_rough]
  by (simp add: webhook_created_def rough_world_sel)

subsection \<open>C3: a message with nothing to send\<close>

text \<open>
  C3 at the message whose text is one space. It is neither a system message nor empty
  for the check of lines 163 to 166; its content consists of the timestamp suffix only,
  the transformer returns without sending; the loop then counts it in \<open>messageCount\<close>
  and leaves \<open>skippedCount\<close> and \<open>errorCount\<close> at zero. The claim says that
  \<open>skippedCount\<close> is incremented. \<open>silent_message_counted_as_sent\<close> shows the same for
  every message with nothing to send that reaches the transformer.
\<close>

theorem blank_message_is_not_counted_as_skipped:
  "\<not> msg_system blank_message \<and> \<not> is_empty_message blank_message
   \<and> nothing_to_send blank_message
   \<and> sendMigratedMessage quiet_world [] (ascii ''900'') blank_message = ([], None)
   \<and> replay_message quiet_world (ascii ''900'') blank_message ([], zero_counters) =
       ([EvSleep 1500],
        \<lparr>c_messageCount = 1, c_attachmentCount = 0, c_skippedCount = 0, c_errorCount = 0\<rparr>)"
  by (simp add: replay_blank blank_message_sel blank_not_empty
      sendMigratedMessage_def blank_nothing_to_send quiet_world_def)

subsection \<open>C4: the accounting of the counters\<close>

text \<open>
  C4 at a channel whose only message is the one whose text is one space. The summary
  has \<open>messageCount = 1\<close>, \<open>skippedCount = 0\<close> and \<open>errorCount = 0\<close>, and no message
  was sent: the sum that the claim equates with \<open>messageCount\<close> is zero. For every
  run, \<open>accounting_up_to_silent_messages\<close> gives the equation with the number of silent
  messages added.
\<close>

theorem blank_message_breaks_the_accounting:
  "migrateChannel ascii_lower blank_world pins_options =
     Some ([EvProgress, EvFetchPinned, EvProgress, EvCreateThread art_gallery_post True,
            EvCreateWebhook True, EvSleep 1500, EvDeleteWebhook True, EvNotifySource True],
           Inr \<lparr>r_threadUrl = ascii ''u/900'', r_threadId = ascii ''900'',
                r_postTitle = ascii ''Art Gallery'', r_messageCount = 1,
                r_attachmentCount = 0, r_skippedCount = 0, r_errorCount = 0\<rparr>)
   \<and> sends_ok [EvProgress, EvFetchPinned, EvProgress, EvCreateThread art_gallery_post True,
            EvCreateWebhook True, EvSleep 1500, EvDeleteWebhook True, EvNotifySource True] = 0"
  by (simp add: migrateChannel_def validate_pins fetch_messages_def migrate_fetched_def
      pins_options_sel tags_portfolio title_art_gallery create_post_def run_with_webhook_def
      blank_world_sel replay_blank art_gallery_post_def Let_def sends_ok_def)

subsection \<open>C5: fetchAllMessages\<close>

text \<open>
  C5. Whenever the channel serves the pages \<open>ps\<close> and then an empty page to requests
  with limit 100 and the cursor set to the id of the last message seen,
  \<^verbatim>\<open>fetchAllMessages\<close> returns: its requests are exactly those, it stops at the empty
  page, and its result is the reversed concatenation of the pages, whose length is the
  sum of the page sizes and which is oldest-first when the pages are newest-first.
  Conversely every list that \<^verbatim>\<open>fetchAllMessages\<close> returns is the reversed concatenation of
  pages served in this way.
\<close>

theorem fetchAllMessages_complete_and_oldest_first:
  "(serves w None ps \<longrightarrow>
      (\<exists>tr'. fetchAllMessages w tr = Some (tr', Inr (rev (concat ps)))
             \<and> fetches_of tr' = fetches_of tr @ map page_opts (cursors None ps))
      \<and> length (rev (concat ps)) = sum_list (map length ps)
      \<and> (newest_first (concat ps) \<longrightarrow> oldest_first (rev (concat ps))))
   \<and> (fetchAllMessages w tr = Some (tr', Inr ms) \<longrightarrow>
        (\<exists>qs. serves w None qs \<and> ms = rev (concat qs)))"
proof (intro conjI impI)
  assume s: "serves w None ps"
  from fetchLoop_serves [OF s, of "[]" 0 tr]
  show "\<exists>tr'. fetchAllMessages w tr = Some (tr', Inr (rev (concat ps)))
             \<and> fetches_of tr' = fetches_of tr @ map page_opts (cursors None ps)"
    by (simp add: fetchAllMessages_def)
next
  show "length (rev (concat ps)) = sum_list (map length ps)"
    by (simp add: length_concat)
next
  assume "newest_first (concat ps)"
  then show "oldest_first (rev (concat ps))" by (simp add: oldest_first_rev)
next
  assume "fetchAllMessages w tr = Some (tr', Inr ms)"
  then have "fetchLoop w [] None 0 tr = Some (tr', Inr ms)" by (simp add: fetchAllMessages_def)
  from fetchLoop_pages [OF this] show "\<exists>qs. serves w None qs \<and> ms = rev (concat qs)"
    by simp
qed

text \<open>
  C5, witness: a channel of three messages served in pages of two and one.
\<close>

theorem fetchAllMessages_complete_and_oldest_first_witness:
  "serves paged_world None [[memo ''3'' 3000, memo ''2'' 2000], [memo ''1'' 1000]]
   \<and> newest_first [memo ''3'' 3000, memo ''2'' 2000, memo ''1'' 1000]
   \<and> (\<exists>tr'. fetchAllMessages paged_world [] =
          Some (tr', Inr [memo ''1'' 1000, memo ''2'' 2000, memo ''3'' 3000])
        \<and> fetches_of tr' =
            [\<lparr>fo_limit = 100, fo_before = None\<rparr>,
             \<lparr>fo_limit = 100, fo_before = Some (ascii ''2'')\<rparr>,
             \<lparr>fo_limit = 100, fo_before = Some (ascii ''1'')\<rparr>])
   \<and> oldest_first [memo ''1'' 1000, memo ''2'' 2000, memo ''3'' 3000]"
proof -
  have n: "newest_first [memo ''3'' 3000, memo ''2'' 2000, memo ''1'' 1000]"
    by (simp add: newest_first_def memo_def)
  have c: "map page_opts (cursors None [[memo ''3'' 3000, memo ''2'' 2000], [memo ''1'' 1000]])
      = [\<lparr>fo_limit = 100, fo_before = None\<rparr>,
         \<lparr>fo_limit = 100, fo_before = Some (ascii ''2'')\<rparr>,
         \<lparr>fo_limit = 100, fo_before = Some (ascii ''1'')\<rparr>]"
    by (simp add: page_opts_def truthy_def memo_def ascii_def)
  show ?thesis
    using fetchAllMessages_complete_and_oldest_first
      [of paged_world "[[memo ''3'' 3000, memo ''2'' 2000], [memo ''1'' 1000]]" "[]"]
      paged_world_serves n c
    by (simp add: fetches_of_def)
qed

subsection \<open>C6: tag resolution\<close>

text \<open>
  C6 at a forum that has the tags \<^verbatim>\<open>Migrated\<close> and \<^verbatim>\<open>Archive\<close> and does not require a
  tag, with no tag name given. The claim says that the fallback to the tag named
  \<^verbatim>\<open>migrated\<close> is applied only when the forum requires a tag, and that the post is
  otherwise created untagged; so does the comment of line 91. The guard of line 92 asks
  whether the forum has tags, the flag is never read (\<open>require_tag_never_read\<close>), and
  the post is created with the tag \<^verbatim>\<open>Migrated\<close>. The part of the claim about a given tag
  name holds (\<open>tag_resolution\<close>).
\<close>

theorem migrated_tag_applied_without_requirement:
  "\<not> frm_requireTag (o_forumChannel pins_options) \<and> o_tagName pins_options = None
   \<and> migrateChannel ascii_lower hello_world pins_options =
     Some ([EvProgress, EvFetchPinned, EvProgress,
            EvCreateThread \<lparr>cr_name = ascii ''Art Gallery'', cr_appliedTags = [ascii ''11'']\<rparr> True,
            EvCreateWebhook True, EvSend hello_payload True, EvSleep 1500,
            EvDeleteWebhook True, EvNotifySource True],
           Inr \<lparr>r_threadUrl = ascii ''u/900'', r_threadId = ascii ''900'',
                r_postTitle = ascii ''Art Gallery'', r_messageCount = 1,
                r_attachmentCount = 0, r_skippedCount = 0, r_errorCount = 0\<rparr>)"
  using run_hello by (simp add: pins_options_sel portfolio_forum_def art_gallery_post_def)

subsection \<open>C7: the character limit\<close>

text \<open>
  C7 at a message of 1990 characters with an attachment of 30 MiB. Text and timestamp
  suffix exceed the limit, the text is truncated to 1976 characters and an ellipsis, and
  the warning line for the attachment is appended after the suffix (line 391): the
  content sent has 2045 characters and does not end with the timestamp suffix. The claim
  says at most 2000 characters, ending with the suffix; \<open>truncation_before_warnings\<close>
  shows that this holds for the content before the warning lines.
\<close>

theorem warning_lines_overflow_the_limit:
  "length (msg_content long_message) + length (timestampSuffix long_message) > MAX_CONTENT_LEN
   \<and> sendMigratedMessage quiet_world [] (ascii ''900'') long_message =
       ([EvSend \<lparr>p_threadId = ascii ''900'', p_content = long_payload_content,
                 p_files = [], p_embeds = []\<rparr> True], None)
   \<and> length long_payload_content = 2045
   \<and> \<not> suffix (timestampSuffix long_message) long_payload_content"
proof -
  have a: "length (msg_content long_message) + length (timestampSuffix long_message) > MAX_CONTENT_LEN"
    unfolding long_suffix by (simp add: long_message_def MAX_CONTENT_LEN_def)
  have b: "sendMigratedMessage quiet_world [] (ascii ''900'') long_message =
       ([EvSend \<lparr>p_threadId = ascii ''900'', p_content = long_payload_content,
                 p_files = [], p_embeds = []\<rparr> True], None)"
    by (simp add: sendMigratedMessage_def long_sendable long_attached richEmbeds_def
        quiet_world_def)
       (simp add: long_message_def)
  have c: "length long_payload_content = 2045"
    by (simp add: long_payload_content_def)
  have l: "last long_payload_content = 41" "last (timestampSuffix long_message) = 62"
      "timestampSuffix long_message \<noteq> []"
    unfolding long_suffix by (simp_all add: long_payload_content_def ascii_def)
  have d: "\<not> suffix (timestampSuffix long_message) long_payload_content"
    using suffix_last [of "timestampSuffix long_message" long_payload_content] l by auto
  show ?thesis using a b c d by blast
qed

subsection \<open>C8: rate limits\<close>

text \<open>
  C8. When the first send of a message fails with the error \<open>err\<close>: if \<open>err\<close> is a
  rate-limit signal (status or code 429), the loop sleeps \<open>retry_delay err + 500\<close>
  milliseconds, which is the signalled \<^verbatim>\<open>retryAfter\<close> in seconds (five seconds when none is
  given) plus half a second, then makes exactly one more send, and \<open>errorCount\<close> grows by
  one exactly when that send fails too; if \<open>err\<close> is any other failure, nothing follows
  the failed send and \<open>errorCount\<close> grows by one.
\<close>

theorem rate_limit_retried_once:
  assumes first: "sendMigratedMessage w tr tid m = (tr1, Some err)"
    and run: "send_with_retry w tid m (tr, c) = (tr', c')"
  shows "(if is_rate_limit err
          then (\<exists>retry. tr' = tr1 @ EvSleep (retry_delay err + 500) # retry
                  \<and> send_attempts retry = 1 \<and> sends_ok retry \<le> 1
                  \<and> c_errorCount c' + sends_ok retry = c_errorCount c + 1)
          else tr' = tr1 \<and> c_errorCount c' = c_errorCount c + 1)
     \<and> send_attempts tr1 = send_attempts tr + 1
     \<and> (case err_retryAfter err of
           None \<Rightarrow> retry_delay err = 5 * 1000
         | Some r \<Rightarrow> retry_delay err \<ge> r * 1000)"
proof -
  from sendMigratedMessage_trace [OF first] obtain ext1 where
    e1: "tr1 = tr @ ext1" "send_attempts ext1 = (if nothing_to_send m then 0 else 1)"
        "nothing_to_send m \<longrightarrow> Some err = None"
    by blast
  then have nn: "\<not> nothing_to_send m" by auto
  have a: "send_attempts tr1 = send_attempts tr + 1"
    using e1 nn by (simp add: send_attempts_def)
  have d: "(case err_retryAfter err of
           None \<Rightarrow> retry_delay err = 5 * 1000
         | Some r \<Rightarrow> retry_delay err \<ge> r * 1000)"
    by (simp add: retry_delay_def split: option.splits)
  have b: "if is_rate_limit err
          then (\<exists>retry. tr' = tr1 @ EvSleep (retry_delay err + 500) # retry
                  \<and> send_attempts retry = 1 \<and> sends_ok retry \<le> 1
                  \<and> c_errorCount c' + sends_ok retry = c_errorCount c + 1)
          else tr' = tr1 \<and> c_errorCount c' = c_errorCount c + 1"
  proof (cases "is_rate_limit err")
    case False
    then show ?thesis using first run by (auto simp: send_with_retry_def)
  next
    case True
    obtain tr2 r2 where second:
      "sendMigratedMessage w (tr1 @ [EvSleep (retry_delay err + 500)]) tid m = (tr2, r2)"
      by (cases "sendMigratedMessage w (tr1 @ [EvSleep (retry_delay err + 500)]) tid m") auto
    from sendMigratedMessage_trace [OF second] obtain ext2 where
      e2: "tr2 = (tr1 @ [EvSleep (retry_delay err + 500)]) @ ext2"
          "send_attempts ext2 = (if nothing_to_send m then 0 else 1)"
          "sends_ok ext2 = (if nothing_to_send m \<or> r2 \<noteq> None then 0 else 1)"
      by blast
    have "tr' = tr2" "c_errorCount c' = (if r2 = None then c_errorCount c else c_errorCount c + 1)"
      using first run second True by (auto simp: send_with_retry_def split: option.splits)
    then have "tr' = tr1 @ EvSleep (retry_delay err + 500) # ext2
                  \<and> send_attempts ext2 = 1 \<and> sends_ok ext2 \<le> 1
                  \<and> c_errorCount c' + sends_ok ext2 = c_errorCount c + 1"
      using e2 nn by auto
    then show ?thesis using True by auto
  qed
  show ?thesis using a b d by blast
qed

text \<open>
  C8, witness: a rate limit of five seconds followed by a successful retry, and a
  failure that is not a rate limit.
\<close>

theorem rate_limit_retried_once_witness:
  "(is_rate_limit rate_limit_error \<and> err_retryAfter rate_limit_error = Some 5
     \<and> send_with_retry limited_world (ascii ''900'') hello_message ([], zero_counters) =
         ([EvSend hello_payload False] @ EvSleep (5 * 1000 + 500) # [EvSend hello_payload True],
          zero_counters)
     \<and> c_errorCount zero_counters = 0)
   \<and> (\<not> is_rate_limit (new_Error (ascii ''Unknown Webhook''))
     \<and> fst (send_with_retry rough_world (ascii ''900'') hello_message ([], zero_counters))
          = [EvSend hello_payload False]
     \<and> c_errorCount
          (snd (send_with_retry rough_world (ascii ''900'') hello_message ([], zero_counters)))
          = c_errorCount zero_counters + 1)"
  using rate_limit_retried_once [OF limited_first limited_run]
    rate_limit_retried_once [OF rough_first rough_run]
  by (simp add: rate_limit_error_sel plain_error limited_run rough_run zero_counters_sel)

subsection \<open>C9: attachments\<close>

text \<open>
  C9. For every message and every platform, the attachment block of lines 386 to 416
  leaves the outgoing files and the content that the specification describes: the files
  are the first ten of the transferable ones, so at most ten; an attachment that
  declares more than 25 MiB is not downloaded and adds the line
  \<^verbatim>\<open>Skipped large file\<close> with its name and its size; an attachment whose download fails
  (rejected request, response not ok, rejected body) adds no file and the line
  \<^verbatim>\<open>Could not download\<close> with its name and the reason; beyond ten transferable files a
  last line gives the number of files left out. A message with something to send is
  handed to \<^verbatim>\<open>webhook.send\<close> with exactly this payload whatever became of its downloads,
  and \<^verbatim>\<open>sendMigratedMessage\<close> fails only if that call fails. The numbers in the lines are
  decimal numerals.
\<close>

theorem attachments_capped_with_warnings:
  "snd (attach_files w m (tr, content)) =
     (content @ warning_text w (msg_attachments m), outgoing_files w (msg_attachments m))
   \<and> length (outgoing_files w (msg_attachments m)) \<le> 10
   \<and> (\<not> nothing_to_send m \<longrightarrow>
        (\<exists>tr'. sendMigratedMessage w tr tid m =
           (tr' @ [EvSend (outgoing_payload w tid m)
                          (w_webhook_send w tr' (outgoing_payload w tid m) = None)],
            w_webhook_send w tr' (outgoing_payload w tid m))))
   \<and> digits_value (show_nat n) = n \<and> list_all is_digit (show_nat n) \<and> show_nat n \<noteq> []"
  using attach_files_spec [of w m tr content] sendMigratedMessage_payload [of m w tr tid]
    show_nat_decimal [of n]
  by (simp add: outgoing_files_def)

text \<open>
  C9, witness: a message with an oversize attachment, an attachment whose download is
  answered with status 404 and one that downloads is sent with one file and two warning
  lines.
\<close>

theorem attachments_capped_with_warnings_witness:
  "\<not> nothing_to_send album_message
   \<and> (\<exists>tr'. sendMigratedMessage flaky_cdn_world [] (ascii ''900'') album_message =
          (tr' @ [EvSend album_payload True], None))
   \<and> length (p_files album_payload) = 1"
proof -
  have s: "w_webhook_send flaky_cdn_world tr pl = None" for tr pl
    by (simp add: flaky_cdn_world_def quiet_world_def)
  from attachments_capped_with_warnings
    [of flaky_cdn_world album_message "[]" "[]" "ascii ''900''" 0] album_sendable
  obtain tr' where "sendMigratedMessage flaky_cdn_world [] (ascii ''900'') album_message =
     (tr' @ [EvSend (outgoing_payload flaky_cdn_world (ascii ''900'') album_message)
               (w_webhook_send flaky_cdn_world tr'
                  (outgoing_payload flaky_cdn_world (ascii ''900'') album_message) = None)],
      w_webhook_send flaky_cdn_world tr'
        (outgoing_payload flaky_cdn_world (ascii ''900'') album_message))"
    by blast
  then have "sendMigratedMessage flaky_cdn_world [] (ascii ''900'') album_message =
          (tr' @ [EvSend album_payload True], None)"
    by (simp add: album_outgoing s)
  moreover have "length (p_files album_payload) = 1" by (simp add: album_payload_def)
  ultimately show ?thesis using album_sendable by blast
qed

subsection \<open>C10: attachmentCount\<close>

text \<open>
  C10. In one iteration of the replay loop the trace gains at most one successful
  \<^verbatim>\<open>webhook.send\<close>, and it gains one exactly when the send of the message succeeds (on
  the first attempt or on the single retry after a rate limit); \<open>attachmentCount\<close>
  grows by the full number of attachments that the message declares exactly then,
  whatever became of the single attachments (too large, download failed, beyond the tenth
  file); an iteration that counts the message as an error or as skipped leaves
  \<open>attachmentCount\<close> as it was. The loop adds these amounts up over its messages, and
  the \<open>attachmentCount\<close> of a returned summary is their sum over the fetched messages,
  counted from zero.
\<close>

theorem attachmentCount_follows_successful_sends:
  "(replay_message w tid m (tr, c) = (tr', c') \<longrightarrow>
      (sends_ok tr' = sends_ok tr \<or> sends_ok tr' = sends_ok tr + 1)
      \<and> (sends_ok tr' = sends_ok tr + 1) = delivered w tid tr m
      \<and> c_attachmentCount c' = c_attachmentCount c
           + (if sends_ok tr' = sends_ok tr + 1 then length (msg_attachments m) else 0)
      \<and> (c_errorCount c' \<noteq> c_errorCount c \<or> c_skippedCount c' \<noteq> c_skippedCount c
           \<longrightarrow> c_attachmentCount c' = c_attachmentCount c))
   \<and> c_attachmentCount (snd (replay w tid ms st))
        = c_attachmentCount (snd st) + attachments_delivered w tid ms st
   \<and> (migrateChannel lc w opts = Some (trace, Inr r) \<longrightarrow>
        (\<exists>tr0 fetched req.
           fetch_messages w (o_pinsOnly opts) [EvProgress] = Some (tr0, Inr fetched)
           \<and> r_attachmentCount r =
               attachments_delivered w (r_threadId r) fetched
                 (tr0 @ [EvProgress, EvCreateThread req True, EvCreateWebhook True],
                  zero_counters)))"
proof (intro conjI impI)
  assume a: "replay_message w tid m (tr, c) = (tr', c')"
  from replay_message_delivered [OF a] have
    d: "c_attachmentCount c' = c_attachmentCount c
            + (if delivered w tid tr m then length (msg_attachments m) else 0)"
       "delivered w tid tr m \<longrightarrow>
            c_errorCount c' = c_errorCount c \<and> c_skippedCount c' = c_skippedCount c"
       "sends_ok tr' = sends_ok tr + (if delivered w tid tr m then 1 else 0)"
    by blast+
  show "sends_ok tr' = sends_ok tr \<or> sends_ok tr' = sends_ok tr + 1" using d(3) by simp
  show e: "(sends_ok tr' = sends_ok tr + 1) = delivered w tid tr m" using d(3) by simp
  show "c_attachmentCount c' = c_attachmentCount c
           + (if sends_ok tr' = sends_ok tr + 1 then length (msg_attachments m) else 0)"
    using d(1) e by simp
  {
    assume "c_errorCount c' \<noteq> c_errorCount c \<or> c_skippedCount c' \<noteq> c_skippedCount c"
    then have "\<not> delivered w tid tr m" using d(2) by blast
    then show "c_attachmentCount c' = c_attachmentCount c" using d(1) by simp
  }
next
  show "c_attachmentCount (snd (replay w tid ms st))
        = c_attachmentCount (snd st) + attachments_delivered w tid ms st"
    by (rule replay_attachments)
next
  assume "migrateChannel lc w opts = Some (trace, Inr r)"
  then show "\<exists>tr0 fetched req.
           fetch_messages w (o_pinsOnly opts) [EvProgress] = Some (tr0, Inr fetched)
           \<and> r_attachmentCount r =
               attachments_delivered w (r_threadId r) fetched
                 (tr0 @ [EvProgress, EvCreateThread req True, EvCreateWebhook True],
                  zero_counters)"
    by (rule returned_attachmentCount)
qed

text \<open>
  C10, witness: the message whose only attachment is too large is sent with no file;
  the iteration and the run count one attachment.
\<close>

theorem attachmentCount_follows_successful_sends_witness:
  "(replay_message file_world (ascii ''900'') file_message ([], zero_counters) =
      ([EvSend file_payload True, EvSleep 1500],
       \<lparr>c_messageCount = 1, c_attachmentCount = 1, c_skippedCount = 0, c_errorCount = 0\<rparr>)
     \<and> p_files file_payload = []
     \<and> delivered file_world (ascii ''900'') [] file_message)
   \<and> (\<exists>tr r. migrateChannel ascii_lower file_world pins_options = Some (tr, Inr r)
        \<and> r_attachmentCount r = 1)
   \<and> (\<exists>tr0 fetched req.
         fetch_messages file_world (o_pinsOnly pins_options) [EvProgress] = Some (tr0, Inr fetched)
         \<and> attachments_delivered file_world (ascii ''900'') fetched
              (tr0 @ [EvProgress, EvCreateThread req True, EvCreateWebhook True], zero_counters)
            = 1)"
proof -
  have a: "replay_message file_world (ascii ''900'') file_message ([], zero_counters) =
      ([EvSend file_payload True, EvSleep 1500],
       \<lparr>c_messageCount = 1, c_attachmentCount = 1, c_skippedCount = 0, c_errorCount = 0\<rparr>)"
    using replay_file [of "[]"] by simp
  note t = attachmentCount_follows_successful_sends
    [of file_world "ascii ''900''" file_message "[]" zero_counters
        "[EvSend file_payload True, EvSleep 1500]"
        "\<lparr>c_messageCount = 1, c_attachmentCount = 1, c_skippedCount = 0, c_errorCount = 0\<rparr>"
        _ _ ascii_lower pins_options
        "[EvProgress, EvFetchPinned, EvProgress, EvCreateThread art_gallery_post True,
            EvCreateWebhook True, EvSend file_payload True, EvSleep 1500,
            EvDeleteWebhook True, EvNotifySource True]"
        "\<lparr>r_threadUrl = ascii ''u/900'', r_threadId = ascii ''900'',
                r_postTitle = ascii ''Art Gallery'', r_messageCount = 1,
                r_attachmentCount = 1, r_skippedCount = 0, r_errorCount = 0\<rparr>"]
  have d: "delivered file_world (ascii ''900'') [] file_message"
    using t a by (simp add: sends_ok_def)
  have e: "\<exists>tr0 fetched req.
         fetch_messages file_world (o_pinsOnly pins_options) [EvProgress] = Some (tr0, Inr fetched)
         \<and> attachments_delivered file_world (ascii ''900'') fetched
              (tr0 @ [EvProgress, EvCreateThread req True, EvCreateWebhook True], zero_counters)
            = 1"
    using t run_file by (simp del: attachments_delivered.simps) metis
  show ?thesis using a d e run_file by (simp add: file_payload_def del: attachments_delivered.simps)
qed

end
